theory Spec2Isabelle
  imports Complex_Main "HOL-Library.Word" "HOL-Library.Monad_Syntax"
begin

section \<open>Numbers and strings of the host language\<close>

text \<open>
  The program is TypeScript. A value of type \<open>number\<close> is modelled as a \<^typ>\<open>real\<close>:
  the rounding of IEEE doubles is not modelled. Where the program divides by the length of
  a buffer, which can be zero, the result has the type \<open>number\<close> below, in which
  \<open>NaN\<close> and the infinities are values of their own.
\<close>

datatype number = Finite real | PosInfinity | NegInfinity | NaN

text \<open>\<open>a / b\<close> for a divisor that is a length, hence never negative zero.\<close>

definition js_divide :: "real \<Rightarrow> real \<Rightarrow> number" where
  "js_divide a b =
     (if b \<noteq> 0 then Finite (a / b)
      else if 0 < a then PosInfinity
      else if a < 0 then NegInfinity
      else NaN)"

fun Math_sqrt :: "number \<Rightarrow> number" where
  "Math_sqrt (Finite v) = (if v < 0 then NaN else Finite (sqrt v))"
| "Math_sqrt PosInfinity = PosInfinity"
| "Math_sqrt NegInfinity = NaN"
| "Math_sqrt NaN = NaN"

text \<open>\<open>lo \<le> v \<and> v \<le> hi\<close> as the host language evaluates it: false on \<open>NaN\<close>.\<close>

fun in_range :: "real \<Rightarrow> real \<Rightarrow> number \<Rightarrow> bool" where
  "in_range lo hi (Finite v) = (lo \<le> v \<and> v \<le> hi)"
| "in_range lo hi PosInfinity = False"
| "in_range lo hi NegInfinity = False"
| "in_range lo hi NaN = False"

text \<open>
  \<open>Math.round\<close> rounds to the nearest integer, halves upwards. \<open>%\<close> is the remainder of the
  truncating division: its sign is the sign of the dividend.
\<close>

definition Math_round :: "real \<Rightarrow> int" where
  "Math_round v = \<lfloor>v + 1 / 2\<rfloor>"

definition js_rem :: "int \<Rightarrow> int \<Rightarrow> int" where
  "js_rem a b = sgn a * (\<bar>a\<bar> mod \<bar>b\<bar>)"

text \<open>
  The decimal rendering of an integral number inside a template literal. It is what the host
  language prints for magnitudes below \<open>10^21\<close>; every number the program renders this way
  (a frequency bucket, a band bucket, a hue, a percentage) is far below that.
\<close>

definition digit_char :: "nat \<Rightarrow> char" where
  "digit_char d = ''0123456789'' ! d"

fun string_of_nat :: "nat \<Rightarrow> string" where
  "string_of_nat n =
     (if n < 10 then [digit_char n]
      else string_of_nat (n div 10) @ [digit_char (n mod 10)])"

declare string_of_nat.simps [simp del]

definition Number_toString :: "int \<Rightarrow> string" where
  "Number_toString i =
     (if i < 0 then CHR ''-'' # string_of_nat (nat (- i)) else string_of_nat (nat i))"

section \<open>Feature extractor (AudioProcessor)\<close>

type_synonym byte = "8 word"

text \<open>
  \<open>initialize\<close> sets the FFT size of the analyser to 2048 and allocates the time-domain
  buffer and the frequency buffer with \<open>frequencyBinCount\<close> entries each, which is half the
  FFT size. \<open>getAudioFeatures\<close> passes these two buffers, filled by the analyser, and
  no other.
\<close>

definition fftSize :: nat where
  "fftSize = 2048"

definition bufferLength :: nat where
  "bufferLength = fftSize div 2"

text \<open>
  \<open>generateSignature\<close>: each component is floored to its bucket and the four buckets are
  joined with a dash.
\<close>

definition generateSignature :: "real \<Rightarrow> real \<Rightarrow> real \<Rightarrow> real \<Rightarrow> string" where
  "generateSignature freq low mid high =
     (let freqBucket = \<lfloor>freq / 50\<rfloor> * 50;
          lowBucket = \<lfloor>low / 20\<rfloor> * 20;
          midBucket = \<lfloor>mid / 20\<rfloor> * 20;
          highBucket = \<lfloor>high / 20\<rfloor> * 20
      in Number_toString freqBucket @ ''-'' @ Number_toString lowBucket @ ''-''
         @ Number_toString midBucket @ ''-'' @ Number_toString highBucket)"

text \<open>
  The bucket of the specification, for comparison with the code: \<open>b\<close> is the bucket of
  width \<open>w\<close> that holds \<open>v\<close> when it is the multiple of \<open>w\<close> with \<open>b \<le> v < b + w\<close>.
\<close>

definition spec_bucket :: "int \<Rightarrow> real \<Rightarrow> int \<Rightarrow> bool" where
  "spec_bucket w v b = (w dvd b \<and> real_of_int b \<le> v \<and> v < real_of_int (b + w))"

text \<open>
  \<open>calculateAmplitude\<close>: the loop adds the squares of the samples, normalised to
  \<open>[-1, 1)\<close>; the result is the root of their mean. The buffer is a \<open>Uint8Array\<close>.
\<close>

fun amplitude_loop :: "byte list \<Rightarrow> real \<Rightarrow> real" where
  "amplitude_loop [] acc = acc"
| "amplitude_loop (d # rest) acc =
     (let normalized = (real (unat d) - 128) / 128
      in amplitude_loop rest (acc + normalized * normalized))"

definition calculateAmplitude :: "byte list \<Rightarrow> number" where
  "calculateAmplitude data =
     Math_sqrt (js_divide (amplitude_loop data 0) (real (length data)))"

text \<open>
  \<open>getFrequencyBands\<close>: three counting loops over the bins \<open>[0, lowEnd)\<close>,
  \<open>[lowEnd, midEnd)\<close> and \<open>[midEnd, length)\<close>, then three divisions by the number of bins
  of the band. \<open>None\<close> is the processor whose \<open>frequencyBins\<close> is still \<open>null\<close>.
  The result is the triple (low, mid, high).
\<close>

definition band_sum :: "byte list \<Rightarrow> nat \<Rightarrow> nat \<Rightarrow> real" where
  "band_sum bins i j = sum_list (map (\<lambda>n. real (unat (bins ! n))) [i..<j])"

definition getFrequencyBands :: "byte list option \<Rightarrow> number \<times> number \<times> number" where
  "getFrequencyBands frequencyBins =
     (case frequencyBins of
        None \<Rightarrow> (Finite 0, Finite 0, Finite 0)
      | Some bins \<Rightarrow>
          (let n = length bins;
               lowEnd = nat \<lfloor>real n * (1 / 10)\<rfloor>;
               midEnd = nat \<lfloor>real n * (4 / 10)\<rfloor>;
               low = band_sum bins 0 lowEnd;
               mid = band_sum bins lowEnd midEnd;
               high = band_sum bins midEnd n
           in (js_divide low (real lowEnd),
               js_divide mid (real midEnd - real lowEnd),
               js_divide high (real n - real midEnd))))"

record AudioFeatures =
  frequency :: real
  amplitude :: real
  lowFreq :: real
  midFreq :: real
  highFreq :: real
  signature :: string

section \<open>Stored mappings (StorageService)\<close>

datatype VisualType = geometric | particle | brush | organic

record SoundMapping =
  mappingId :: string
  soundSignature :: string
  frequencyRange :: string
  visualType :: VisualType
  colorPrimary :: string
  colorSecondary :: string
  shapeType :: string
  sizeBase :: real
  opacityBase :: real
  animationStyle :: string
  createdAt :: string

text \<open>
  What can go wrong. \<open>SyntaxError\<close> and \<open>TypeError\<close> are the exceptions of the host
  language. \<open>UndefinedValue\<close> is not an exception: it stands for a run in which the source
  would go on with \<open>undefined\<close> in a field that is typed as a string.
\<close>

datatype js_error = SyntaxError | TypeError | UndefinedValue

text \<open>
  A value of the host language, as far as \<open>JSON.parse\<close> can return one. The members of an
  object are listed in the order of their insertion, each key once. A number is a
  \<^typ>\<open>real\<close>: the storage service and the mapper never compute with a number they have
  read back, they only tell it from a string, from \<open>null\<close> and from an array.
\<close>

datatype json =
    JNull
  | JBool bool
  | JNumber real
  | JString string
  | JArray "json list"
  | JObject "(string \<times> json) list"

text \<open>
  The object that \<open>createMapping\<close> builds, as a value: the members are those of the object
  literal, in its order.
\<close>

fun VisualType_name :: "VisualType \<Rightarrow> string" where
  "VisualType_name geometric = ''geometric''"
| "VisualType_name particle = ''particle''"
| "VisualType_name brush = ''brush''"
| "VisualType_name organic = ''organic''"

definition mapping_json :: "SoundMapping \<Rightarrow> json" where
  "mapping_json ma =
     JObject [(''id'', JString (mappingId ma)),
              (''soundSignature'', JString (soundSignature ma)),
              (''frequencyRange'', JString (frequencyRange ma)),
              (''visualType'', JString (VisualType_name (visualType ma))),
              (''colorPrimary'', JString (colorPrimary ma)),
              (''colorSecondary'', JString (colorSecondary ma)),
              (''shapeType'', JString (shapeType ma)),
              (''sizeBase'', JNumber (sizeBase ma)),
              (''opacityBase'', JNumber (opacityBase ma)),
              (''animationStyle'', JString (animationStyle ma)),
              (''createdAt'', JString (createdAt ma))]"

text \<open>
  The browser's \<open>localStorage\<close> holds text. All the program does with the text under the
  mappings key is to test whether it is empty and to hand it to \<open>JSON.parse\<close>, and all it
  writes there is the \<open>JSON.stringify\<close> of what it has parsed, changed in one element. A
  stored text is therefore represented by what \<open>JSON.parse\<close> makes of it: the empty string,
  a non-empty string that is not valid JSON (such as \<open>{\<close> or \<open>not json\<close>), or a text of
  the value that it denotes, whatever that value is (\<open>null\<close>, \<open>5\<close>, \<open>{}\<close>, \<open>[null]\<close>, an
  array of mappings). \<open>setItemCalls\<close> counts the writes.
\<close>

datatype stored_text = EmptyText | InvalidJSON | JSONText json

record localStorage =
  items :: "string \<rightharpoonup> stored_text"
  setItemCalls :: nat

definition getItem :: "localStorage \<Rightarrow> string \<Rightarrow> stored_text option" where
  "getItem ls key = items ls key"

definition setItem :: "localStorage \<Rightarrow> string \<Rightarrow> stored_text \<Rightarrow> localStorage" where
  "setItem ls key v = ls\<lparr>items := (items ls)(key \<mapsto> v), setItemCalls := Suc (setItemCalls ls)\<rparr>"

definition removeItem :: "localStorage \<Rightarrow> string \<Rightarrow> localStorage" where
  "removeItem ls key = ls\<lparr>items := (items ls)(key := None)\<rparr>"

fun JSON_parse :: "stored_text \<Rightarrow> js_error + json" where
  "JSON_parse EmptyText = Inl SyntaxError"
| "JSON_parse InvalidJSON = Inl SyntaxError"
| "JSON_parse (JSONText v) = Inr v"

definition JSON_stringify :: "json \<Rightarrow> stored_text" where
  "JSON_stringify v = JSONText v"

definition SOUND_MAPPINGS_KEY :: string where
  "SOUND_MAPPINGS_KEY = ''soundVisual_mappings''"

text \<open>
  \<open>data ? JSON.parse(data) : []\<close>: \<open>null\<close> and the empty string are falsy. The declared
  result type is an array of mappings, but nothing checks the value that \<open>JSON.parse\<close>
  returns.
\<close>

definition getAllSoundMappings :: "localStorage \<Rightarrow> js_error + json" where
  "getAllSoundMappings ls =
     (case getItem ls SOUND_MAPPINGS_KEY of
        None \<Rightarrow> Inr (JArray [])
      | Some data \<Rightarrow> if data \<noteq> EmptyText then JSON_parse data else Inr (JArray []))"

text \<open>
  \<open>find\<close>, \<open>findIndex\<close> and \<open>forEach\<close> are methods of arrays. Called on \<open>null\<close> they are
  a \<open>TypeError\<close> (a property of \<open>null\<close> is read); called on any other value that is not an
  array they are a \<open>TypeError\<close> as well (what is called is \<open>undefined\<close> or, in an object with
  a member of that name, a value that is not a function).
\<close>

fun array_elements :: "json \<Rightarrow> js_error + json list" where
  "array_elements (JArray es) = Inr es"
| "array_elements JNull = Inl TypeError"
| "array_elements (JBool b) = Inl TypeError"
| "array_elements (JNumber n) = Inl TypeError"
| "array_elements (JString s) = Inl TypeError"
| "array_elements (JObject members) = Inl TypeError"

text \<open>
  \<open>m.soundSignature\<close>: reading a property of \<open>null\<close> is a \<open>TypeError\<close>; a value without
  such a property gives \<open>undefined\<close>, which is \<open>None\<close> here. \<open>has_signature\<close> is the test
  \<open>m => m.soundSignature === signature\<close>, in which \<open>signature\<close> is a string.
\<close>

fun soundSignature_of :: "json \<Rightarrow> js_error + json option" where
  "soundSignature_of JNull = Inl TypeError"
| "soundSignature_of (JObject members) = Inr (map_of members ''soundSignature'')"
| "soundSignature_of (JBool b) = Inr None"
| "soundSignature_of (JNumber n) = Inr None"
| "soundSignature_of (JString s) = Inr None"
| "soundSignature_of (JArray es) = Inr None"

definition has_signature :: "string \<Rightarrow> json \<Rightarrow> js_error + bool" where
  "has_signature sig m =
     (case soundSignature_of m of
        Inl e \<Rightarrow> Inl e
      | Inr v \<Rightarrow> Inr (v = Some (JString sig)))"

text \<open>
  \<open>find\<close> and \<open>findIndex\<close> with a test that can throw: the first element, or the first
  index, whose test is true. \<open>None\<close> is \<open>undefined\<close> for \<open>find\<close> and \<open>-1\<close> for
  \<open>findIndex\<close>.
\<close>

fun find_js :: "('a \<Rightarrow> js_error + bool) \<Rightarrow> 'a list \<Rightarrow> js_error + 'a option" where
  "find_js t [] = Inr None"
| "find_js t (a # as) =
     (case t a of
        Inl e \<Rightarrow> Inl e
      | Inr found \<Rightarrow> if found then Inr (Some a) else find_js t as)"

fun findIndex :: "('a \<Rightarrow> js_error + bool) \<Rightarrow> 'a list \<Rightarrow> js_error + nat option" where
  "findIndex t [] = Inr None"
| "findIndex t (a # as) =
     (case t a of
        Inl e \<Rightarrow> Inl e
      | Inr found \<Rightarrow>
          if found then Inr (Some 0)
          else (case findIndex t as of Inl e \<Rightarrow> Inl e | Inr r \<Rightarrow> Inr (map_option Suc r)))"

text \<open>\<open>mappings.find(...) || null\<close>: an element that is found is an object, hence truthy.\<close>

definition getSoundMapping :: "string \<Rightarrow> localStorage \<Rightarrow> js_error + json option" where
  "getSoundMapping sig ls =
     (case getAllSoundMappings ls of
        Inl e \<Rightarrow> Inl e
      | Inr v \<Rightarrow>
          (case array_elements v of
             Inl e \<Rightarrow> Inl e
           | Inr mappings \<Rightarrow> find_js (has_signature sig) mappings))"

definition saveSoundMapping :: "SoundMapping \<Rightarrow> localStorage \<Rightarrow> js_error + localStorage" where
  "saveSoundMapping mapping ls =
     (case getAllSoundMappings ls of
        Inl e \<Rightarrow> Inl e
      | Inr v \<Rightarrow>
          (case array_elements v of
             Inl e \<Rightarrow> Inl e
           | Inr mappings \<Rightarrow>
               (case findIndex (has_signature (soundSignature mapping)) mappings of
                  Inl e \<Rightarrow> Inl e
                | Inr existingIndex \<Rightarrow>
                    (let mappings' =
                           (case existingIndex of
                              Some i \<Rightarrow> mappings[i := mapping_json mapping]
                            | None \<Rightarrow> mappings @ [mapping_json mapping])
                     in Inr (setItem ls SOUND_MAPPINGS_KEY (JSON_stringify (JArray mappings')))))))"

definition clearAllMappings :: "localStorage \<Rightarrow> localStorage" where
  "clearAllMappings ls = removeItem ls SOUND_MAPPINGS_KEY"

section \<open>Mapping cache (VisualMapper)\<close>

definition VISUAL_TYPES :: "VisualType list" where
  "VISUAL_TYPES = [geometric, particle, brush, organic]"

fun SHAPE_TYPES :: "VisualType \<Rightarrow> string list" where
  "SHAPE_TYPES geometric = [''circle'', ''square'', ''triangle'', ''hexagon'', ''star'', ''diamond'']"
| "SHAPE_TYPES particle = [''dots'', ''sparkles'', ''burst'', ''trail'', ''spiral'']"
| "SHAPE_TYPES brush = [''soft'', ''textured'', ''splatter'', ''calligraphy'', ''spray'']"
| "SHAPE_TYPES organic = [''blob'', ''wave'', ''tentacle'', ''fractal'', ''flow'']"

definition ANIMATION_STYLES :: "string list" where
  "ANIMATION_STYLES = [''pulse'', ''rotate'', ''expand'', ''fade'', ''oscillate'', ''drift'']"

subsection \<open>The hash and the seeded generator\<close>

text \<open>
  \<open>hashSignature\<close>. The shift and the bitwise \<open>and\<close> work on 32-bit signed integers:
  \<open>ToInt32\<close> is the conversion the host language applies to their operands and results.
  The subtraction and the addition in between are exact. A character is its code unit.
\<close>

definition ToInt32 :: "int \<Rightarrow> int" where
  "ToInt32 v = (v + 2 ^ 31) mod 2 ^ 32 - 2 ^ 31"

definition shift_left5 :: "int \<Rightarrow> int" where
  "shift_left5 v = ToInt32 (ToInt32 v * 32)"

fun hash_loop :: "string \<Rightarrow> int \<Rightarrow> int" where
  "hash_loop [] hash = hash"
| "hash_loop (ch # rest) hash =
     (let code = of_char ch;
          hash1 = (shift_left5 hash - hash) + code
      in hash_loop rest (ToInt32 hash1))"

definition hashSignature :: "string \<Rightarrow> int" where
  "hashSignature sig = \<bar>hash_loop sig 0\<bar>"

text \<open>
  \<open>createSeededRandom\<close> returns a closure over the variable \<open>value\<close>. The closure is
  represented by the current content of that variable, and a call of the closure by
  \<open>rng_call\<close>, which returns the number drawn and the closure after the call.

  The variable holds an integer. The program computes \<open>value * 9301 + 49297\<close> in double
  precision, which is exact as long as the result is below \<open>2^53\<close>. The only seed the
  program passes is a hash, which is at most \<open>2^31\<close>, and every later content of the
  variable is below 233280, so the integer arithmetic here is the arithmetic of the program
  for the seeds it uses; for a seed above \<open>2^53 / 9301\<close> it would not be.
\<close>

type_synonym rng = int

definition createSeededRandom :: "int \<Rightarrow> rng" where
  "createSeededRandom seed = seed"

definition rng_call :: "rng \<Rightarrow> real \<times> rng" where
  "rng_call v = (let v' = js_rem (v * 9301 + 49297) 233280 in (real_of_int v' / 233280, v'))"



subsection \<open>Colours\<close>

text \<open>
  \<open>generateColor\<close>. The products \<open>r * 360\<close>, \<open>r * 40\<close>, \<open>r * 25\<close> and \<open>r * 20\<close> are
  products of reals here and of doubles in the program; for the few draws whose real
  product is an integer, or within rounding distance of one, the floor of the two can
  differ by one. Nothing below depends on the value of a hue, a saturation or a lightness.
\<close>

definition generateColor :: "rng \<Rightarrow> AudioFeatures \<Rightarrow> string \<times> rng" where
  "generateColor g0 audioFeatures =
     (let (r1, g1) = rng_call g0;
          hue = \<lfloor>r1 * 360\<rfloor>;
          (r2, g2) = rng_call g1;
          saturation = 60 + \<lfloor>r2 * 40\<rfloor>;
          (r3, g3) = rng_call g2;
          lightness =
            (if lowFreq audioFeatures > midFreq audioFeatures
                \<and> lowFreq audioFeatures > highFreq audioFeatures
             then 35 + \<lfloor>r3 * 25\<rfloor>
             else if highFreq audioFeatures > lowFreq audioFeatures
                \<and> highFreq audioFeatures > midFreq audioFeatures
             then 60 + \<lfloor>r3 * 25\<rfloor>
             else 45 + \<lfloor>r3 * 20\<rfloor>)
      in (''hsl('' @ Number_toString hue @ '', '' @ Number_toString saturation @ ''%, ''
            @ Number_toString lightness @ ''%)'', g3))"

text \<open>
  The three regular expressions of \<open>generateComplementaryColor\<close>. Each is a sequence of
  literals, digit runs and one optional run of white space in which every run is followed by
  a character outside the run, so the greedy match without backtracking is the match. A
  regular expression that is not anchored matches at the leftmost position where it can.
  Strings are ASCII.
\<close>

definition is_digit :: "char \<Rightarrow> bool" where
  "is_digit ch = (48 \<le> (of_char ch :: nat) \<and> (of_char ch :: nat) \<le> 57)"

definition is_space :: "char \<Rightarrow> bool" where
  "is_space ch = ((of_char ch :: nat) \<in> {9, 10, 11, 12, 13, 32})"

fun strip_prefix :: "string \<Rightarrow> string \<Rightarrow> string option" where
  "strip_prefix [] s = Some s"
| "strip_prefix (p # ps) [] = None"
| "strip_prefix (p # ps) (ch # s) = (if p = ch then strip_prefix ps s else None)"

definition digits1 :: "string \<Rightarrow> (string \<times> string) option" where
  "digits1 s =
     (let ds = takeWhile is_digit s
      in if ds = [] then None else Some (ds, dropWhile is_digit s))"

fun first_match :: "(string \<Rightarrow> 'a option) \<Rightarrow> string \<Rightarrow> 'a option" where
  "first_match p [] = p []"
| "first_match p (ch # s) =
     (case p (ch # s) of Some v \<Rightarrow> Some v | None \<Rightarrow> first_match p s)"

text \<open>\<open>/hsl\((\d+)/\<close>, \<open>/hsl\(\d+,\s*(\d+)%/\<close> and \<open>/hsl\(\d+,\s*\d+%,\s*(\d+)%/\<close>, at a position.\<close>

definition hue_at :: "string \<Rightarrow> string option" where
  "hue_at s = do {
     s1 \<leftarrow> strip_prefix ''hsl('' s;
     (hue, s2) \<leftarrow> digits1 s1;
     Some hue }"

definition sat_at :: "string \<Rightarrow> string option" where
  "sat_at s = do {
     s1 \<leftarrow> strip_prefix ''hsl('' s;
     (hue, s2) \<leftarrow> digits1 s1;
     s3 \<leftarrow> strip_prefix '','' s2;
     (sat, s4) \<leftarrow> digits1 (dropWhile is_space s3);
     s5 \<leftarrow> strip_prefix ''%'' s4;
     Some sat }"

definition light_at :: "string \<Rightarrow> string option" where
  "light_at s = do {
     s1 \<leftarrow> strip_prefix ''hsl('' s;
     (hue, s2) \<leftarrow> digits1 s1;
     s3 \<leftarrow> strip_prefix '','' s2;
     (sat, s4) \<leftarrow> digits1 (dropWhile is_space s3);
     s5 \<leftarrow> strip_prefix ''%,'' s4;
     (light, s6) \<leftarrow> digits1 (dropWhile is_space s5);
     s7 \<leftarrow> strip_prefix ''%'' s6;
     Some light }"

text \<open>\<open>parseInt\<close> on a run of decimal digits.\<close>

definition parseInt :: "string \<Rightarrow> int" where
  "parseInt ds = foldl (\<lambda>a ch. 10 * a + (of_char ch - 48)) 0 ds"

definition generateComplementaryColor :: "string \<Rightarrow> rng \<Rightarrow> string \<times> rng" where
  "generateComplementaryColor primaryColor g0 =
     (case first_match hue_at primaryColor of
        None \<Rightarrow> (primaryColor, g0)
      | Some hueMatch \<Rightarrow>
          (let primaryHue = parseInt hueMatch;
               (r1, g1) = rng_call g0;
               hueOffset = 150 + \<lfloor>r1 * 60\<rfloor>;
               newHue = js_rem (primaryHue + hueOffset) 360;
               saturation =
                 (case first_match sat_at primaryColor of Some d \<Rightarrow> parseInt d | None \<Rightarrow> 70);
               lightness =
                 (case first_match light_at primaryColor of Some d \<Rightarrow> parseInt d | None \<Rightarrow> 50)
           in (''hsl('' @ Number_toString newHue @ '', '' @ Number_toString saturation @ ''%, ''
                 @ Number_toString lightness @ ''%)'', g1)))"

subsection \<open>Creating and caching a mapping\<close>

definition getFrequencyRange :: "real \<Rightarrow> string" where
  "getFrequencyRange freq =
     (if freq < 250 then ''sub-bass''
      else if freq < 500 then ''bass''
      else if freq < 2000 then ''midrange''
      else if freq < 6000 then ''upper-mid''
      else ''treble'')"

text \<open>
  \<open>arr[Math.floor(r * arr.length)]\<close>: \<open>None\<close> is \<open>undefined\<close>, the value of an index outside
  the array.
\<close>

definition pick :: "'a list \<Rightarrow> real \<Rightarrow> 'a option" where
  "pick arr r =
     (let i = \<lfloor>r * real (length arr)\<rfloor>
      in if 0 \<le> i \<and> nat i < length arr then Some (arr ! nat i) else None)"

text \<open>
  What \<open>createMapping\<close> takes from outside the program: the identifier that
  \<open>crypto.randomUUID()\<close> returns and the text of the current time.
\<close>

record mapper_env =
  randomUUID :: string
  nowISOString :: string

text \<open>
  An \<open>undefined\<close> visual type makes \<open>SHAPE_TYPES[visualType].length\<close> a \<open>TypeError\<close>; an
  \<open>undefined\<close> shape type or animation style would be stored as it is.
\<close>

definition createMapping :: "mapper_env \<Rightarrow> AudioFeatures \<Rightarrow> js_error + SoundMapping" where
  "createMapping env audioFeatures =
     (let seed = hashSignature (signature audioFeatures);
          g0 = createSeededRandom seed;
          (r1, g1) = rng_call g0
      in case pick VISUAL_TYPES r1 of
           None \<Rightarrow> Inl TypeError
         | Some vType \<Rightarrow>
             (let (r2, g2) = rng_call g1;
                  (r3, g3) = rng_call g2
              in case (pick (SHAPE_TYPES vType) r2, pick ANIMATION_STYLES r3) of
                   (Some sType, Some aStyle) \<Rightarrow>
                     (let (cPrimary, g6) = generateColor g3 audioFeatures;
                          (cSecondary, g7) = generateComplementaryColor cPrimary g6;
                          frequencyNorm = min (frequency audioFeatures / 2000) 1;
                          (r8, g8) = rng_call g7;
                          sBase = 10 + (frequencyNorm * 40) + (r8 * 20);
                          (r9, g9) = rng_call g8;
                          oBase = 1 / 2 + (r9 * (3 / 10))
                      in Inr \<lparr>mappingId = randomUUID env,
                               soundSignature = signature audioFeatures,
                               frequencyRange = getFrequencyRange (frequency audioFeatures),
                               visualType = vType,
                               colorPrimary = cPrimary,
                               colorSecondary = cSecondary,
                               shapeType = sType,
                               sizeBase = sBase,
                               opacityBase = oBase,
                               animationStyle = aStyle,
                               createdAt = nowISOString env\<rparr>)
                 | _ \<Rightarrow> Inl UndefinedValue))"

text \<open>
  The mapper owns the cache; the storage service is a module of its own. Both are in the
  state the operations work on. A call returns its result, or the exception it throws,
  together with the state it leaves.

  The cache is a \<open>Map\<close>. The program asks it only for keys that are strings (\<open>has\<close> and
  \<open>get\<close> with a signature), and a key of another kind is never equal to a string, so the
  cache is represented by what it holds under strings: \<open>cache_set\<close> with a key that is not
  a string (\<open>undefined\<close>, a number, ...) leaves this part of the cache as it is.
\<close>

record mapper_state =
  mappingCache :: "string \<rightharpoonup> json"
  storage :: localStorage

definition cache_set :: "(string \<rightharpoonup> json) \<Rightarrow> json option \<Rightarrow> json \<Rightarrow> (string \<rightharpoonup> json)" where
  "cache_set cache key v =
     (case key of
        Some (JString s) \<Rightarrow> cache(s \<mapsto> v)
      | _ \<Rightarrow> cache)"

text \<open>
  \<open>mappings.forEach(mapping => this.mappingCache.set(mapping.soundSignature, mapping))\<close>:
  the elements in their order; the first \<open>null\<close> among them ends the loop with a
  \<open>TypeError\<close>.
\<close>

fun cache_all :: "json list \<Rightarrow> (string \<rightharpoonup> json) \<Rightarrow> js_error + (string \<rightharpoonup> json)" where
  "cache_all [] cache = Inr cache"
| "cache_all (m # rest) cache =
     (case soundSignature_of m of
        Inl e \<Rightarrow> Inl e
      | Inr key \<Rightarrow> cache_all rest (cache_set cache key m))"

definition loadExistingMappings :: "mapper_state \<Rightarrow> js_error + mapper_state" where
  "loadExistingMappings st =
     (case getAllSoundMappings (storage st) of
        Inl e \<Rightarrow> Inl e
      | Inr v \<Rightarrow>
          (case array_elements v of
             Inl e \<Rightarrow> Inl e
           | Inr mappings \<Rightarrow>
               (case cache_all mappings (mappingCache st) of
                  Inl e \<Rightarrow> Inl e
                | Inr cache \<Rightarrow> Inr (st\<lparr>mappingCache := cache\<rparr>))))"

text \<open>\<open>new VisualMapper()\<close>: an empty cache, then \<open>loadExistingMappings\<close>.\<close>

definition new_VisualMapper :: "localStorage \<Rightarrow> js_error + mapper_state" where
  "new_VisualMapper ls = loadExistingMappings \<lparr>mappingCache = Map.empty, storage = ls\<rparr>"

text \<open>
  \<open>getOrCreateMapping\<close> returns what the cache holds under the signature, which is an
  element of the stored array as it was read or an object that \<open>createMapping\<close> built.
\<close>

definition getOrCreateMapping ::
  "mapper_env \<Rightarrow> AudioFeatures \<Rightarrow> mapper_state \<Rightarrow> (js_error + json) \<times> mapper_state" where
  "getOrCreateMapping env audioFeatures st =
     (case mappingCache st (signature audioFeatures) of
        Some cached \<Rightarrow> (Inr cached, st)
      | None \<Rightarrow>
          (case createMapping env audioFeatures of
             Inl e \<Rightarrow> (Inl e, st)
           | Inr newMapping \<Rightarrow>
               (let st1 = st\<lparr>mappingCache :=
                               (mappingCache st)(signature audioFeatures \<mapsto> mapping_json newMapping)\<rparr>
                in case saveSoundMapping newMapping (storage st1) of
                     Inl e \<Rightarrow> (Inl e, st1)
                   | Inr ls \<Rightarrow> (Inr (mapping_json newMapping), st1\<lparr>storage := ls\<rparr>))))"

definition clearCache :: "mapper_state \<Rightarrow> mapper_state" where
  "clearCache st = st\<lparr>mappingCache := Map.empty, storage := clearAllMappings (storage st)\<rparr>"

section \<open>Export: the per-pixel CMYK conversion\<close>

text \<open>
  \<open>ExportUtils.convertToCMYK\<close> walks the canvas bytes four at a time (red, green, blue,
  alpha). The body of the loop is split in two here: lines 107 to 119 compute the CMYK
  components of a pixel, lines 121 to 123 write the channels back. The image data is a
  clamped byte array that holds whole pixels.
\<close>

text \<open>The components are returned in the order (c, m, y, k).\<close>

definition rgb_to_cmyk :: "byte \<Rightarrow> byte \<Rightarrow> byte \<Rightarrow> real \<times> real \<times> real \<times> real" where
  "rgb_to_cmyk rb gb bb =
     (let r = real (unat rb) / 255;
          g = real (unat gb) / 255;
          b = real (unat bb) / 255;
          k = 1 - max (max r g) b
      in if k < 1
         then ((1 - r - k) / (1 - k), (1 - g - k) / (1 - k), (1 - b - k) / (1 - k), k)
         else (0, 0, 0, k))"

text \<open>A store into the clamped byte array: the value is clamped to \<open>0..255\<close>.\<close>

definition store_clamped :: "int \<Rightarrow> byte" where
  "store_clamped v = word_of_int (max 0 (min 255 v))"

definition cmyk_to_rgb :: "real \<times> real \<times> real \<times> real \<Rightarrow> byte \<times> byte \<times> byte" where
  "cmyk_to_rgb q =
     (case q of (c, m, y, k) \<Rightarrow>
        (store_clamped (Math_round ((1 - c) * (1 - k) * 255)),
         store_clamped (Math_round ((1 - m) * (1 - k) * 255)),
         store_clamped (Math_round ((1 - y) * (1 - k) * 255))))"

fun convertToCMYK :: "(byte \<times> byte \<times> byte \<times> byte) list \<Rightarrow> (byte \<times> byte \<times> byte \<times> byte) list" where
  "convertToCMYK [] = []"
| "convertToCMYK ((rb, gb, bb, ab) # rest) =
     (case cmyk_to_rgb (rgb_to_cmyk rb gb bb) of
        (r', g', b') \<Rightarrow> (r', g', b', ab) # convertToCMYK rest)"

section \<open>Animation engine (VisualRenderer)\<close>

text \<open>
  The repository holds two renderers whose entities carry a spawn time and a lifetime. The
  one with the fade option (its \<open>RenderOptions\<close> has \<open>fadeEnabled\<close> and
  \<open>fadeDuration\<close>) carries the plain names below. The one in \<open>src/lib/visualRenderer.ts\<close>, whose options are the global opacity and
  the sensitivity only, carries the suffix \<open>_legacy\<close>; it reads the first two fields of the
  options and has no \<open>currentOptions\<close>. The interfaces \<open>AnimatedShape\<close> and \<open>Particle\<close>
  are the same in both; the fields they share are declared once.
\<close>

record RenderOptions =
  globalOpacity :: real
  sensitivity :: real
  fadeEnabled :: bool
  fadeDuration :: real

record Entity =
  x :: real
  y :: real
  vx :: real
  vy :: real
  startTime :: real
  duration :: real
  rotation :: real
  rotationSpeed :: real
  scale :: real

text \<open>The field \<open>type\<close> of a shape is \<open>shapeKind\<close> here; it is never \<open>particle\<close>.\<close>

record AnimatedShape = Entity +
  shapeKind :: VisualType
  mapping :: SoundMapping
  baseSize :: real
  baseOpacity :: real
  scaleSpeed :: real
  growthRate :: real
  opacityPhase :: real

text \<open>The field \<open>size\<close> of a particle is \<open>particleSize\<close> here.\<close>

record Particle = Entity +
  particleSize :: real
  color :: string
  life :: real
  decay :: real
  maxScale :: real

text \<open>
  The drawing surface is represented by the drawing calls made on it: \<open>renderShape\<close> with
  the shape, the size and the opacity it is given, and the filled circle of a particle with
  the \<open>globalAlpha\<close> it is drawn with.
\<close>

datatype draw_call =
    DrawShape AnimatedShape real real
  | DrawParticle Particle real
  | FillRect real real real real

fun draw_opacity :: "draw_call \<Rightarrow> real" where
  "draw_opacity (DrawShape shape sz opacity) = opacity"
| "draw_opacity (DrawParticle p alpha) = alpha"
| "draw_opacity (FillRect a b w h) = 1"

record renderer =
  particles :: "Particle list"
  animatedShapes :: "AnimatedShape list"
  animationTime :: real
  lastFrameTime :: real
  currentOptions :: RenderOptions
  canvasWidth :: real
  canvasHeight :: real
  drawn :: "draw_call list"

text \<open>
  What a tick takes from outside the program: the clock as \<open>render\<close> reads it, the clock as
  \<open>createAnimatedShape\<close> reads it a little later, and the successive results of
  \<open>Math.random()\<close>, numbered from 0 within the tick.
\<close>

record tick_env =
  performanceNow :: real
  performanceNowAtSpawn :: real
  mathRandom :: "nat \<Rightarrow> real"

definition randomDuration :: "real \<Rightarrow> real" where
  "randomDuration r = 1000 + r * 2000"

definition easeInOutCubic :: "real \<Rightarrow> real" where
  "easeInOutCubic t = (if t < 1 / 2 then 4 * t * t * t else 1 - (- 2 * t + 2) ^ 3 / 2)"

definition easeOutQuad :: "real \<Rightarrow> real" where
  "easeOutQuad t = 1 - (1 - t) * (1 - t)"

definition easeInOutQuad :: "real \<Rightarrow> real" where
  "easeInOutQuad t = (if t < 1 / 2 then 2 * t * t else 1 - (- 2 * t + 2) ^ 2 / 2)"

subsection \<open>Spawning\<close>

text \<open>
  \<open>new_shape\<close> is the object literal of \<open>createAnimatedShape\<close>; \<open>n\<close> is the number of the
  first random draw the function makes. The two renderers differ in the initial scale only.
\<close>

definition new_shape ::
  "real \<Rightarrow> tick_env \<Rightarrow> nat \<Rightarrow> VisualType \<Rightarrow> SoundMapping \<Rightarrow> real \<Rightarrow> real \<Rightarrow> real \<Rightarrow> real
   \<Rightarrow> AnimatedShape" where
  "new_shape initialScale env n kind mp px py sz opacity =
     (let dur = randomDuration (mathRandom env n);
          angle = mathRandom env (n + 1) * pi * 2;
          speed = 20 + mathRandom env (n + 2) * 40
      in \<lparr>x = px, y = py,
          vx = cos angle * speed, vy = sin angle * speed,
          startTime = performanceNowAtSpawn env,
          duration = dur,
          rotation = mathRandom env (n + 3) * pi * 2,
          rotationSpeed = (mathRandom env (n + 4) - 1 / 2) * 2,
          scale = initialScale,
          shapeKind = kind,
          mapping = mp,
          baseSize = sz,
          baseOpacity = opacity,
          scaleSpeed = 1 / 2 + mathRandom env (n + 5) * 1,
          growthRate = 3 / 10 + mathRandom env (n + 6) * (7 / 10),
          opacityPhase = mathRandom env (n + 7) * pi * 2\<rparr>)"

definition createAnimatedShape ::
  "tick_env \<Rightarrow> nat \<Rightarrow> VisualType \<Rightarrow> SoundMapping \<Rightarrow> real \<Rightarrow> real \<Rightarrow> real \<Rightarrow> real
   \<Rightarrow> renderer \<Rightarrow> renderer" where
  "createAnimatedShape env n kind mp px py sz opacity st =
     st\<lparr>animatedShapes := animatedShapes st @ [new_shape (12 / 10) env n kind mp px py sz opacity]\<rparr>"

definition createAnimatedShape_legacy ::
  "tick_env \<Rightarrow> nat \<Rightarrow> VisualType \<Rightarrow> SoundMapping \<Rightarrow> real \<Rightarrow> real \<Rightarrow> real \<Rightarrow> real
   \<Rightarrow> renderer \<Rightarrow> renderer" where
  "createAnimatedShape_legacy env n kind mp px py sz opacity st =
     st\<lparr>animatedShapes := animatedShapes st @ [new_shape (8 / 10) env n kind mp px py sz opacity]\<rparr>"

text \<open>
  \<open>createAnimatedParticles\<close> is the same in both renderers. Particle \<open>i\<close> of \<open>count\<close>
  makes seven random draws; \<open>new_particle\<close> is one pass of the loop.
\<close>

definition new_particle ::
  "tick_env \<Rightarrow> nat \<Rightarrow> SoundMapping \<Rightarrow> real \<Rightarrow> real \<Rightarrow> real \<Rightarrow> real \<Rightarrow> nat \<Rightarrow> nat \<Rightarrow> Particle" where
  "new_particle env n mp px py sz now count i =
     (let r = (\<lambda>j. mathRandom env (n + 7 * i + j));
          angle = (pi * 2 * real i) / real count + r 0 * (2 / 10);
          distance = sz * (1 / 2 + r 1 * (1 / 2));
          speed = 50 + r 2 * 100
      in \<lparr>x = px + cos angle * distance, y = py + sin angle * distance,
          vx = cos angle * speed, vy = sin angle * speed,
          startTime = now,
          duration = randomDuration (r 3),
          rotation = r 4 * pi * 2,
          rotationSpeed = (r 5 - 1 / 2) * 4,
          scale = 1 / 2,
          particleSize = sz * (2 / 10),
          color = (if i mod 2 = 0 then colorPrimary mp else colorSecondary mp),
          life = 1,
          decay = 15 / 1000,
          maxScale = 1 + r 6 * (15 / 10)\<rparr>)"

definition createAnimatedParticles ::
  "tick_env \<Rightarrow> nat \<Rightarrow> SoundMapping \<Rightarrow> real \<Rightarrow> real \<Rightarrow> real \<Rightarrow> real \<Rightarrow> real \<Rightarrow> real
   \<Rightarrow> renderer \<Rightarrow> renderer" where
  "createAnimatedParticles env n mp px py sz opacity amp now st =
     (let count = nat \<lfloor>5 + amp * 15\<rfloor>
      in st\<lparr>particles := particles st @ map (new_particle env n mp px py sz now count) [0..<count]\<rparr>)"

subsection \<open>The update loops\<close>

text \<open>
  Both update loops run from the last index down to 0 and either splice the element out or
  change it in place and draw it. \<open>splice_loop\<close> is that loop; \<open>body\<close> is one pass, which
  returns \<open>None\<close> when the element is spliced out and otherwise the element as the pass
  leaves it together with the drawing call it makes.
\<close>

fun splice_loop ::
  "('a \<Rightarrow> ('a \<times> draw_call) option) \<Rightarrow> nat \<Rightarrow> 'a list \<times> draw_call list
   \<Rightarrow> 'a list \<times> draw_call list" where
  "splice_loop body 0 (es, calls) = (es, calls)"
| "splice_loop body (Suc i) (es, calls) =
     (case body (es ! i) of
        None \<Rightarrow> splice_loop body i (take i es @ drop (Suc i) es, calls)
      | Some (e', call) \<Rightarrow> splice_loop body i (es[i := e'], calls @ [call]))"

text \<open>
  One pass of \<open>updateAnimatedShapes\<close>. The lifetime \<open>duration\<close> of an entity is a divisor
  here; every entity the engine creates has a lifetime of at least 1000.
\<close>

definition updateShape :: "RenderOptions \<Rightarrow> real \<Rightarrow> real \<Rightarrow> AnimatedShape \<Rightarrow> (AnimatedShape \<times> draw_call) option" where
  "updateShape opts animTime now shape =
     (let elapsed = now - startTime shape
      in if fadeEnabled opts then
           (let fadeStartTime = fadeDuration opts;
                fadeDur = 1500
            in if elapsed > fadeStartTime + fadeDur then None
               else
                 (let animProgress = min (elapsed / 1000) 1;
                      easedProgress = easeInOutCubic animProgress;
                      shape1 = shape\<lparr>x := x shape + vx shape * (1 / 60),
                                     y := y shape + vy shape * (1 / 60),
                                     rotation := rotation shape + rotationSpeed shape * (1 / 60),
                                     scale := 1 / 2 + easedProgress * scaleSpeed shape\<rparr>;
                      currentOpacity =
                        (if elapsed > fadeStartTime
                         then baseOpacity shape1 * (1 - (elapsed - fadeStartTime) / fadeDur)
                         else baseOpacity shape1);
                      currentSize = baseSize shape1 * scale shape1
                  in Some (shape1, DrawShape shape1 currentSize currentOpacity)))
         else
           (let progress = min (elapsed / duration shape) 1
            in if progress \<ge> 1 then
                 (let easedProgress = 1;
                      shape1 = shape\<lparr>scale := 1 / 2 + easedProgress * scaleSpeed shape\<rparr>;
                      currentSize = baseSize shape1 * scale shape1;
                      currentOpacity = baseOpacity shape1
                  in Some (shape1, DrawShape shape1 currentSize currentOpacity))
               else
                 (let easedProgress = easeInOutCubic progress;
                      shape1 = shape\<lparr>x := x shape + vx shape * (1 / 60),
                                     y := y shape + vy shape * (1 / 60),
                                     rotation := rotation shape + rotationSpeed shape * (1 / 60),
                                     scale := 1 / 2 + easedProgress * scaleSpeed shape\<rparr>;
                      opacityMod = sin (animTime * 2 + opacityPhase shape1) * (2 / 10) + 8 / 10;
                      currentOpacity = baseOpacity shape1 * (1 - progress * (3 / 10)) * opacityMod;
                      currentSize = baseSize shape1 * scale shape1
                  in Some (shape1, DrawShape shape1 currentSize currentOpacity))))"

definition updateAnimatedShapes :: "real \<Rightarrow> renderer \<Rightarrow> renderer" where
  "updateAnimatedShapes now st =
     (case splice_loop (updateShape (currentOptions st) (animationTime st) now)
             (length (animatedShapes st)) (animatedShapes st, drawn st) of
        (shapes, calls) \<Rightarrow> st\<lparr>animatedShapes := shapes, drawn := calls\<rparr>)"

text \<open>One pass of \<open>updateParticles\<close>.\<close>

definition updateParticle :: "RenderOptions \<Rightarrow> real \<Rightarrow> Particle \<Rightarrow> (Particle \<times> draw_call) option" where
  "updateParticle opts now p =
     (let elapsed = now - startTime p
      in if fadeEnabled opts then
           (let fadeStartTime = fadeDuration opts;
                fadeDur = 1500
            in if elapsed > fadeStartTime + fadeDur then None
               else
                 (let animProgress = min (elapsed / 1000) 1;
                      easedProgress = easeOutQuad animProgress;
                      p1 = p\<lparr>x := x p + vx p * (1 / 60),
                             y := y p + vy p * (1 / 60),
                             rotation := rotation p + rotationSpeed p * (1 / 60),
                             scale := 1 / 2 + easedProgress * (maxScale p - 1 / 2)\<rparr>;
                      currentOpacity =
                        (if elapsed > fadeStartTime
                         then 1 - (elapsed - fadeStartTime) / fadeDur
                         else 1)
                  in Some (p1, DrawParticle p1 currentOpacity)))
         else
           (let progress = min (elapsed / duration p) 1
            in if progress \<ge> 1 then
                 (let easedProgress = 1;
                      p1 = p\<lparr>scale := 1 / 2 + easedProgress * (maxScale p - 1 / 2)\<rparr>
                  in Some (p1, DrawParticle p1 1))
               else
                 (let easedProgress = easeOutQuad progress;
                      p1 = p\<lparr>x := x p + vx p * (1 / 60),
                             y := y p + vy p * (1 / 60),
                             rotation := rotation p + rotationSpeed p * (1 / 60),
                             scale := 1 / 2 + easedProgress * (maxScale p - 1 / 2),
                             life := 1 - progress\<rparr>
                  in Some (p1, DrawParticle p1 (life p1)))))"

definition updateParticles :: "real \<Rightarrow> renderer \<Rightarrow> renderer" where
  "updateParticles now st =
     (case splice_loop (updateParticle (currentOptions st) now)
             (length (particles st)) (particles st, drawn st) of
        (ps, calls) \<Rightarrow> st\<lparr>particles := ps, drawn := calls\<rparr>)"

definition updateAnimatedElements :: "real \<Rightarrow> renderer \<Rightarrow> renderer" where
  "updateAnimatedElements now st = updateParticles now (updateAnimatedShapes now st)"

text \<open>The same passes in \<open>src/lib/visualRenderer.ts\<close>.\<close>

definition updateShape_legacy :: "real \<Rightarrow> real \<Rightarrow> AnimatedShape \<Rightarrow> (AnimatedShape \<times> draw_call) option" where
  "updateShape_legacy animTime now shape =
     (let elapsed = now - startTime shape;
          progress = min (elapsed / duration shape) 1
      in if progress \<ge> 1 then None
         else
           (let easedProgress = easeInOutCubic progress;
                shape1 = shape\<lparr>x := x shape + vx shape * (1 / 60),
                               y := y shape + vy shape * (1 / 60),
                               rotation := rotation shape + rotationSpeed shape * (1 / 60),
                               scale := min (easedProgress * scaleSpeed shape) 2\<rparr>;
                opacityMod = sin (animTime * 2 + opacityPhase shape1) * (2 / 10) + 8 / 10;
                currentOpacity = baseOpacity shape1 * (1 - progress * (3 / 10)) * opacityMod;
                currentSize = baseSize shape1 * scale shape1
            in Some (shape1, DrawShape shape1 currentSize currentOpacity)))"

definition updateAnimatedShapes_legacy :: "real \<Rightarrow> renderer \<Rightarrow> renderer" where
  "updateAnimatedShapes_legacy now st =
     (case splice_loop (updateShape_legacy (animationTime st) now)
             (length (animatedShapes st)) (animatedShapes st, drawn st) of
        (shapes, calls) \<Rightarrow> st\<lparr>animatedShapes := shapes, drawn := calls\<rparr>)"

definition updateParticle_legacy :: "real \<Rightarrow> Particle \<Rightarrow> (Particle \<times> draw_call) option" where
  "updateParticle_legacy now p =
     (let elapsed = now - startTime p;
          progress = min (elapsed / duration p) 1
      in if progress \<ge> 1 then None
         else
           (let easedProgress = easeOutQuad progress;
                p1 = p\<lparr>x := x p + vx p * (1 / 60),
                       y := y p + vy p * (1 / 60),
                       rotation := rotation p + rotationSpeed p * (1 / 60),
                       scale := 1 / 2 + easedProgress * (maxScale p - 1 / 2),
                       life := 1 - progress\<rparr>
            in Some (p1, DrawParticle p1 (life p1))))"

definition updateParticles_legacy :: "real \<Rightarrow> renderer \<Rightarrow> renderer" where
  "updateParticles_legacy now st =
     (case splice_loop (updateParticle_legacy now)
             (length (particles st)) (particles st, drawn st) of
        (ps, calls) \<Rightarrow> st\<lparr>particles := ps, drawn := calls\<rparr>)"

definition updateAnimatedElements_legacy :: "real \<Rightarrow> renderer \<Rightarrow> renderer" where
  "updateAnimatedElements_legacy now st =
     updateParticles_legacy now (updateAnimatedShapes_legacy now st)"

subsection \<open>The tick\<close>

definition render :: "tick_env \<Rightarrow> SoundMapping \<Rightarrow> AudioFeatures \<Rightarrow> RenderOptions \<Rightarrow> renderer \<Rightarrow> renderer" where
  "render env mp audioFeatures opts st0 =
     (let st1 = st0\<lparr>currentOptions := opts\<rparr>;
          now = performanceNow env;
          deltaTime = (now - lastFrameTime st1) / 1000;
          st2 = st1\<lparr>lastFrameTime := now, animationTime := animationTime st1 + deltaTime\<rparr>;
          amplitudeScaled = amplitude audioFeatures * sensitivity opts;
          threshold = 2 / 100
      in if amplitudeScaled < threshold then updateAnimatedElements now st2
         else
           (let px = mathRandom env 0 * canvasWidth st2;
                py = mathRandom env 1 * canvasHeight st2;
                sz = max (sizeBase mp * (1 + amplitudeScaled * 3)) 40;
                opacity = 8 / 10;
                st3 =
                  (case visualType mp of
                     geometric \<Rightarrow> createAnimatedShape env 2 geometric mp px py sz opacity st2
                   | particle \<Rightarrow> createAnimatedParticles env 2 mp px py sz opacity amplitudeScaled now st2
                   | brush \<Rightarrow> createAnimatedShape env 2 brush mp px py sz opacity st2
                   | organic \<Rightarrow> createAnimatedShape env 2 organic mp px py sz opacity st2)
            in updateAnimatedElements now st3))"

definition render_legacy :: "tick_env \<Rightarrow> SoundMapping \<Rightarrow> AudioFeatures \<Rightarrow> RenderOptions \<Rightarrow> renderer \<Rightarrow> renderer" where
  "render_legacy env mp audioFeatures opts st0 =
     (let now = performanceNow env;
          deltaTime = (now - lastFrameTime st0) / 1000;
          st2 = st0\<lparr>lastFrameTime := now, animationTime := animationTime st0 + deltaTime\<rparr>;
          amplitudeScaled = amplitude audioFeatures * sensitivity opts * 2
      in if amplitudeScaled < 1 / 100 then updateAnimatedElements_legacy now st2
         else
           (let px = mathRandom env 0 * canvasWidth st2;
                py = mathRandom env 1 * canvasHeight st2;
                sz = sizeBase mp * (1 + amplitudeScaled * 3);
                opacity =
                  min (max (opacityBase mp * globalOpacity opts * (3 / 10 + amplitudeScaled * (15 / 10)))
                           (2 / 10)) 1;
                st3 =
                  (case visualType mp of
                     geometric \<Rightarrow> createAnimatedShape_legacy env 2 geometric mp px py sz opacity st2
                   | particle \<Rightarrow> createAnimatedParticles env 2 mp px py sz opacity amplitudeScaled now st2
                   | brush \<Rightarrow> createAnimatedShape_legacy env 2 brush mp px py sz opacity st2
                   | organic \<Rightarrow> createAnimatedShape_legacy env 2 organic mp px py sz opacity st2)
            in updateAnimatedElements_legacy now st3))"

text \<open>
  The constructors and \<open>clear\<close>. The legacy constructor draws a test rectangle. The cleared
  surface has no drawing calls.
\<close>

definition new_VisualRenderer :: "real \<Rightarrow> real \<Rightarrow> real \<Rightarrow> renderer" where
  "new_VisualRenderer now w h =
     \<lparr>particles = [], animatedShapes = [], animationTime = 0, lastFrameTime = now,
      currentOptions = \<lparr>globalOpacity = 7 / 10, sensitivity = 1, fadeEnabled = False,
                        fadeDuration = 3000\<rparr>,
      canvasWidth = w, canvasHeight = h, drawn = []\<rparr>"

definition new_VisualRenderer_legacy :: "real \<Rightarrow> real \<Rightarrow> real \<Rightarrow> renderer" where
  "new_VisualRenderer_legacy now w h =
     (new_VisualRenderer now w h)\<lparr>drawn := [FillRect 50 50 100 100]\<rparr>"

definition clear :: "renderer \<Rightarrow> renderer" where
  "clear st = st\<lparr>particles := [], animatedShapes := [], drawn := []\<rparr>"

subsection \<open>Sample values\<close>

text \<open>
  A mapping, a shape and a particle spawned at a given time with a given lifetime, the
  options with the fade switched on or off (fade duration 3000), a renderer that holds given
  shapes, features with a given amplitude, and a tick at a given time in which every random
  draw is one half.
\<close>

definition sample_mapping :: SoundMapping where
  "sample_mapping =
     \<lparr>mappingId = ''id-1'', soundSignature = ''100-40-60-80'', frequencyRange = ''sub-bass'',
      visualType = geometric, colorPrimary = ''hsl(271, 79%, 61%)'',
      colorSecondary = ''hsl(108, 79%, 61%)'', shapeType = ''circle'', sizeBase = 10,
      opacityBase = 1 / 2, animationStyle = ''pulse'', createdAt = ''t1''\<rparr>"

definition sample_shape :: "real \<Rightarrow> real \<Rightarrow> AnimatedShape" where
  "sample_shape start lifetime =
     \<lparr>x = 0, y = 0, vx = 60, vy = 0, startTime = start, duration = lifetime, rotation = 0,
      rotationSpeed = 0, scale = 12 / 10, shapeKind = geometric, mapping = sample_mapping,
      baseSize = 40, baseOpacity = 8 / 10, scaleSpeed = 1, growthRate = 1 / 2,
      opacityPhase = 0\<rparr>"

definition sample_particle :: "real \<Rightarrow> real \<Rightarrow> Particle" where
  "sample_particle start lifetime =
     \<lparr>x = 0, y = 0, vx = 100, vy = 0, startTime = start, duration = lifetime, rotation = 0,
      rotationSpeed = 0, scale = 1 / 2, particleSize = 8, color = ''hsl(271, 79%, 61%)'',
      life = 1, decay = 15 / 1000, maxScale = 2\<rparr>"

definition sample_options :: "bool \<Rightarrow> RenderOptions" where
  "sample_options fade =
     \<lparr>globalOpacity = 7 / 10, sensitivity = 1, fadeEnabled = fade, fadeDuration = 3000\<rparr>"

definition sample_renderer :: "RenderOptions \<Rightarrow> AnimatedShape list \<Rightarrow> renderer" where
  "sample_renderer opts shapes =
     \<lparr>particles = [], animatedShapes = shapes, animationTime = 0, lastFrameTime = 0,
      currentOptions = opts, canvasWidth = 800, canvasHeight = 600, drawn = []\<rparr>"

definition sample_features :: "real \<Rightarrow> AudioFeatures" where
  "sample_features amp =
     \<lparr>frequency = 0, amplitude = amp, lowFreq = 0, midFreq = 0, highFreq = 0,
      signature = ''0-0-0-0''\<rparr>"

definition sample_env :: "real \<Rightarrow> tick_env" where
  "sample_env t =
     \<lparr>performanceNow = t, performanceNowAtSpawn = t, mathRandom = (\<lambda>n. 1 / 2)\<rparr>"

section \<open>Verified properties: feature extractor\<close>

lemma floor_bucket:
  assumes "0 < w" "spec_bucket w v b"
  shows "\<lfloor>v / real_of_int w\<rfloor> * w = b"
proof -
  from assms(2) obtain q where b: "b = w * q" by (auto simp: spec_bucket_def)
  have w: "0 < real_of_int w" using assms(1) by simp
  have lo: "real_of_int q \<le> v / real_of_int w"
    using assms(2) w by (simp add: spec_bucket_def b pos_le_divide_eq mult.commute)
  have "v < real_of_int w * (real_of_int q + 1)"
    using assms(2) by (simp add: spec_bucket_def b algebra_simps)
  then have hi: "v / real_of_int w < real_of_int q + 1"
    using w by (simp add: pos_divide_less_eq mult.commute)
  have "\<lfloor>v / real_of_int w\<rfloor> = q" using lo hi by (simp add: floor_unique)
  then show ?thesis by (simp add: b)
qed

text \<open>
  C4. \<open>generateSignature\<close> returns the decimal renderings of the four buckets joined by
  dashes, where the bucket of the frequency is the multiple of 50 just below or at it and the
  bucket of a band the multiple of 20 just below or at it. Two feature tuples whose
  components lie in the same buckets get the same signature.
\<close>

theorem generateSignature_buckets:
  assumes "spec_bucket 50 f bf" "spec_bucket 20 l bl" "spec_bucket 20 m bm" "spec_bucket 20 h bh"
    and "spec_bucket 50 f' bf" "spec_bucket 20 l' bl" "spec_bucket 20 m' bm" "spec_bucket 20 h' bh"
  shows "generateSignature f l m h =
           Number_toString bf @ ''-'' @ Number_toString bl @ ''-'' @ Number_toString bm @ ''-''
             @ Number_toString bh
         \<and> generateSignature f' l' m' h' = generateSignature f l m h"
  using assms(1-4) [THEN floor_bucket [rotated]] assms(5-8) [THEN floor_bucket [rotated]]
  by (simp add: generateSignature_def Let_def)

theorem generateSignature_buckets_witness:
  "spec_bucket 50 (1234 / 10) 100 \<and> spec_bucket 20 45 40 \<and> spec_bucket 20 67 60
   \<and> spec_bucket 20 89 80 \<and> spec_bucket 50 149 100 \<and> spec_bucket 20 40 40
   \<and> spec_bucket 20 (799 / 10) 60 \<and> spec_bucket 20 99 80
   \<and> generateSignature (1234 / 10) 45 67 89 = ''100-40-60-80''
   \<and> generateSignature 149 40 (799 / 10) 99 = generateSignature (1234 / 10) 45 67 89"
proof -
  have b: "spec_bucket 50 (1234 / 10) 100" "spec_bucket 20 45 40" "spec_bucket 20 67 60"
    "spec_bucket 20 89 80" "spec_bucket 50 149 100" "spec_bucket 20 40 40"
    "spec_bucket 20 (799 / 10) 60" "spec_bucket 20 99 80"
    by (simp_all add: spec_bucket_def)
  have s: "Number_toString 100 = ''100''" "Number_toString 40 = ''40''"
    "Number_toString 60 = ''60''" "Number_toString 80 = ''80''"
    by (simp_all add: Number_toString_def string_of_nat.simps digit_char_def)
  show ?thesis using generateSignature_buckets [OF b] b by (simp add: s)
qed

lemma byte_bounds: "0 \<le> real (unat (d :: byte)) \<and> real (unat d) \<le> 255"
proof -
  have "unat d < 2 ^ LENGTH(8)" by (rule unsigned_less)
  then have "unat d \<le> 255" by simp
  then have "real (unat d) \<le> real 255" by (simp only: of_nat_le_iff)
  then show ?thesis by (simp del: of_nat_unat)
qed

lemma normalized_square:
  "0 \<le> (real (unat (d :: byte)) - 128) / 128 * ((real (unat d) - 128) / 128)
   \<and> (real (unat d) - 128) / 128 * ((real (unat d) - 128) / 128) \<le> 1"
proof -
  define u where "u = (real (unat d) - 128) / 128"
  have "\<bar>u\<bar> \<le> 1" using byte_bounds [of d] by (simp add: u_def abs_le_iff del: of_nat_unat)
  then have "u * u \<le> 1" by (metis abs_square_le_1 power2_eq_square)
  moreover have "0 \<le> u * u" by simp
  ultimately show ?thesis by (simp only: u_def)
qed

lemma amplitude_loop_bounds:
  "acc \<le> amplitude_loop data acc \<and> amplitude_loop data acc \<le> acc + real (length data)"
proof (induction data arbitrary: acc)
  case Nil then show ?case by simp
next
  case (Cons d data)
  define q where "q = (real (unat d) - 128) / 128 * ((real (unat d) - 128) / 128)"
  have q: "0 \<le> q" "q \<le> 1" using normalized_square [of d] by (simp_all only: q_def)
  have st: "amplitude_loop (d # data) acc = amplitude_loop data (acc + q)"
    by (simp only: amplitude_loop.simps Let_def q_def)
  have "acc \<le> amplitude_loop data (acc + q)"
    "amplitude_loop data (acc + q) \<le> acc + real (length (d # data))"
    using Cons.IH [of "acc + q"] q by simp_all
  then show ?case by (simp only: st)
qed

lemma calculateAmplitude_nonempty:
  assumes "data \<noteq> []"
  shows "in_range 0 1 (calculateAmplitude data)"
proof -
  let ?s = "amplitude_loop data 0" and ?n = "real (length data)"
  have n: "0 < ?n" using assms by simp
  have s: "0 \<le> ?s" "?s \<le> ?n" using amplitude_loop_bounds [of 0 data] by simp_all
  have q: "0 \<le> ?s / ?n" "?s / ?n \<le> 1" using s n by simp_all
  have "sqrt (?s / ?n) \<le> 1" using q by simp
  then show ?thesis using n q by (simp add: calculateAmplitude_def js_divide_def)
qed

text \<open>
  On a buffer without entries, which the program never passes, the mean is \<open>0 / 0\<close>.
\<close>

lemma calculateAmplitude_empty: "calculateAmplitude [] = NaN"
  by (simp add: calculateAmplitude_def js_divide_def)

lemma band_sum_bounds:
  assumes "i \<le> j"
  shows "0 \<le> band_sum bins i j \<and> band_sum bins i j \<le> 255 * (real j - real i)"
proof -
  have "0 \<le> sum_list (map (\<lambda>n. real (unat (bins ! n))) ns)
        \<and> sum_list (map (\<lambda>n. real (unat (bins ! n))) ns) \<le> 255 * real (length ns)" for ns
  proof (induction ns)
    case Nil then show ?case by simp
  next
    case (Cons a ns) then show ?case using byte_bounds [of "bins ! a"]
      by (simp add: algebra_simps del: of_nat_unat)
  qed
  from this [of "[i..<j]"] assms show ?thesis
    by (simp add: band_sum_def del: of_nat_unat)
qed

lemma js_divide_band:
  assumes "0 \<le> s" "s \<le> 255 * n" "0 < n"
  shows "in_range 0 255 (js_divide s n)"
proof -
  have "0 \<le> s / n" using assms by simp
  moreover have "s / n \<le> 255" using assms by (simp add: pos_divide_le_eq)
  ultimately show ?thesis using assms(3) by (simp add: js_divide_def)
qed

lemma getFrequencyBands_1024:
  assumes "length bins = 1024"
  shows "case getFrequencyBands (Some bins) of
           (l, m, h) \<Rightarrow> in_range 0 255 l \<and> in_range 0 255 m \<and> in_range 0 255 h"
proof -
  have l: "in_range 0 255 (js_divide (band_sum bins 0 102) (real (102::nat)))"
    using band_sum_bounds [of 0 102 bins] by (intro js_divide_band) simp_all
  have m: "in_range 0 255 (js_divide (band_sum bins 102 409) (real (409::nat) - real (102::nat)))"
    using band_sum_bounds [of 102 409 bins] by (intro js_divide_band) simp_all
  have h: "in_range 0 255 (js_divide (band_sum bins 409 1024) (real (1024::nat) - real (409::nat)))"
    using band_sum_bounds [of 409 1024 bins] by (intro js_divide_band) simp_all
  show ?thesis using l m h
    by (simp add: getFrequencyBands_def assms Let_def)
qed

text \<open>
  C7. The analyser is set up with an FFT size of 2048, so the time-domain buffer and the
  frequency buffer both have 1024 entries. For every time-domain byte buffer of that length,
  and for every one that has an entry at all, \<open>calculateAmplitude\<close> returns a number in
  \<open>[0, 1]\<close>. For every frequency buffer of that length, each of the three band averages of
  \<open>getFrequencyBands\<close> is a number in \<open>[0, 255]\<close>.
\<close>

theorem amplitude_and_bands_in_range:
  "(length data = bufferLength \<longrightarrow> in_range 0 1 (calculateAmplitude data))
   \<and> (data \<noteq> [] \<longrightarrow> in_range 0 1 (calculateAmplitude data))
   \<and> (length bins = bufferLength \<longrightarrow>
        (case getFrequencyBands (Some bins) of
           (l, m, h) \<Rightarrow> in_range 0 255 l \<and> in_range 0 255 m \<and> in_range 0 255 h))"
proof -
  have n: "bufferLength = 1024" by (simp add: bufferLength_def fftSize_def)
  have a: "length data = bufferLength \<longrightarrow> in_range 0 1 (calculateAmplitude data)"
  proof
    assume "length data = bufferLength"
    then have "data \<noteq> []" using n by auto
    then show "in_range 0 1 (calculateAmplitude data)" by (rule calculateAmplitude_nonempty)
  qed
  have b: "data \<noteq> [] \<longrightarrow> in_range 0 1 (calculateAmplitude data)"
    using calculateAmplitude_nonempty [of data] by blast
  have c: "length bins = bufferLength \<longrightarrow>
        (case getFrequencyBands (Some bins) of
           (l, m, h) \<Rightarrow> in_range 0 255 l \<and> in_range 0 255 m \<and> in_range 0 255 h)"
    using getFrequencyBands_1024 [of bins] n by simp
  from a b c show ?thesis by (intro conjI)
qed

theorem amplitude_and_bands_in_range_witness:
  "length (replicate 1024 (255 :: byte)) = bufferLength
   \<and> replicate 1024 (255 :: byte) \<noteq> []
   \<and> in_range 0 1 (calculateAmplitude (replicate 1024 255))
   \<and> (case getFrequencyBands (Some (replicate 1024 255)) of
         (l, m, h) \<Rightarrow> in_range 0 255 l \<and> in_range 0 255 m \<and> in_range 0 255 h)"
  using amplitude_and_bands_in_range [of "replicate 1024 255" "replicate 1024 255"]
  by (simp add: bufferLength_def fftSize_def)

section \<open>Verified properties: stored mappings\<close>

lemma cache_all_null:
  "JNull \<in> set es \<Longrightarrow> cache_all es cache = Inl TypeError"
proof (induction es arbitrary: cache)
  case Nil
  then show ?case by simp
next
  case (Cons m es)
  show ?case
  proof (cases "m = JNull")
    case True
    then show ?thesis by simp
  next
    case False
    then obtain key where key: "soundSignature_of m = Inr key" by (cases m) simp_all
    from False Cons.prems have "JNull \<in> set es" by auto
    from Cons.IH [OF this] show ?thesis by (simp add: key)
  qed
qed

lemma cache_set_apply:
  "cache_set cache key m sig = (if key = Some (JString sig) then Some m else cache sig)"
  by (simp add: cache_set_def split: option.splits json.splits)

lemma find_append_first:
  "find P (xs @ ys) = (case find P xs of Some a \<Rightarrow> Some a | None \<Rightarrow> find P ys)"
  by (induction xs) simp_all

lemma cache_all_no_null:
  "JNull \<notin> set es \<Longrightarrow>
   cache_all es cache =
     Inr (\<lambda>sig. case find (\<lambda>m. soundSignature_of m = Inr (Some (JString sig))) (rev es) of
                  Some m \<Rightarrow> Some m
                | None \<Rightarrow> cache sig)"
proof (induction es arbitrary: cache)
  case Nil
  then show ?case by simp
next
  case (Cons m es)
  from Cons.prems have m: "m \<noteq> JNull" and es: "JNull \<notin> set es" by auto
  from m obtain key where key: "soundSignature_of m = Inr key" by (cases m) simp_all
  have "cache_all (m # es) cache = cache_all es (cache_set cache key m)" by (simp add: key)
  also have "\<dots> = Inr (\<lambda>sig. case find (\<lambda>m. soundSignature_of m = Inr (Some (JString sig))) (rev es) of
                  Some m \<Rightarrow> Some m
                | None \<Rightarrow> cache_set cache key m sig)"
    by (rule Cons.IH [OF es])
  also have "\<dots> = Inr (\<lambda>sig. case find (\<lambda>m. soundSignature_of m = Inr (Some (JString sig)))
                               (rev (m # es)) of
                  Some m \<Rightarrow> Some m
                | None \<Rightarrow> cache sig)"
    by (auto simp: fun_eq_iff find_append_first cache_set_apply key split: option.splits)
  finally show ?case .
qed

text \<open>
  C8, as stated, fails: when the text under the mappings key is not valid JSON,
  \<open>getAllSoundMappings\<close> throws the \<open>SyntaxError\<close> of \<open>JSON.parse\<close>, and so does the
  constructor of the mapper, which loads the stored mappings.
\<close>

theorem getAllSoundMappings_invalid_counterexample:
  "getAllSoundMappings \<lparr>items = [SOUND_MAPPINGS_KEY \<mapsto> InvalidJSON], setItemCalls = 0\<rparr>
     = Inl SyntaxError
   \<and> new_VisualMapper \<lparr>items = [SOUND_MAPPINGS_KEY \<mapsto> InvalidJSON], setItemCalls = 0\<rparr>
     = Inl SyntaxError"
  by (simp add: getAllSoundMappings_def getItem_def new_VisualMapper_def loadExistingMappings_def)

text \<open>
  Stored texts that are valid JSON but not an array of mappings: \<open>null\<close>, \<open>{}\<close> and \<open>5\<close>
  are returned by \<open>getAllSoundMappings\<close> as they are and make the constructor of the mapper
  throw a \<open>TypeError\<close>, and so does \<open>[null]\<close>; with \<open>[5]\<close> the constructor returns, with
  nothing in the cache that a signature could find.
\<close>

lemma stored_value_not_mappings:
  "getAllSoundMappings \<lparr>items = [SOUND_MAPPINGS_KEY \<mapsto> JSONText JNull], setItemCalls = 0\<rparr>
     = Inr JNull
   \<and> new_VisualMapper \<lparr>items = [SOUND_MAPPINGS_KEY \<mapsto> JSONText JNull], setItemCalls = 0\<rparr>
     = Inl TypeError
   \<and> getAllSoundMappings \<lparr>items = [SOUND_MAPPINGS_KEY \<mapsto> JSONText (JObject [])], setItemCalls = 0\<rparr>
     = Inr (JObject [])
   \<and> new_VisualMapper \<lparr>items = [SOUND_MAPPINGS_KEY \<mapsto> JSONText (JObject [])], setItemCalls = 0\<rparr>
     = Inl TypeError
   \<and> new_VisualMapper \<lparr>items = [SOUND_MAPPINGS_KEY \<mapsto> JSONText (JNumber 5)], setItemCalls = 0\<rparr>
     = Inl TypeError
   \<and> getAllSoundMappings
       \<lparr>items = [SOUND_MAPPINGS_KEY \<mapsto> JSONText (JArray [JNull])], setItemCalls = 0\<rparr>
     = Inr (JArray [JNull])
   \<and> new_VisualMapper
       \<lparr>items = [SOUND_MAPPINGS_KEY \<mapsto> JSONText (JArray [JNull])], setItemCalls = 0\<rparr>
     = Inl TypeError
   \<and> new_VisualMapper
       \<lparr>items = [SOUND_MAPPINGS_KEY \<mapsto> JSONText (JArray [JNumber 5])], setItemCalls = 0\<rparr>
     = Inr \<lparr>mappingCache = Map.empty,
            storage = \<lparr>items = [SOUND_MAPPINGS_KEY \<mapsto> JSONText (JArray [JNumber 5])],
                       setItemCalls = 0\<rparr>\<rparr>"
  by (simp add: getAllSoundMappings_def getItem_def new_VisualMapper_def loadExistingMappings_def
      cache_set_def)

text \<open>
  C8, amended. \<open>getAllSoundMappings\<close> returns the empty collection when there is no text
  under the mappings key or the text is empty, throws a \<open>SyntaxError\<close> when the text is not
  valid JSON, and otherwise returns the value the text denotes, array or not, without
  throwing. The constructor of the mapper throws that \<open>SyntaxError\<close> when the text is not
  valid JSON, throws a \<open>TypeError\<close> when the stored value is not an array or is an array
  with a \<open>null\<close> among its elements, and otherwise returns with the cache holding, under
  every string that is the \<open>soundSignature\<close> of an element, the last element that has it.
\<close>

theorem getAllSoundMappings_cases:
  "getAllSoundMappings ls =
     (case getItem ls SOUND_MAPPINGS_KEY of
        None \<Rightarrow> Inr (JArray [])
      | Some EmptyText \<Rightarrow> Inr (JArray [])
      | Some InvalidJSON \<Rightarrow> Inl SyntaxError
      | Some (JSONText v) \<Rightarrow> Inr v)
   \<and> new_VisualMapper ls =
     (case getAllSoundMappings ls of
        Inl e \<Rightarrow> Inl e
      | Inr v \<Rightarrow>
          (case v of
             JArray es \<Rightarrow>
               if JNull \<in> set es then Inl TypeError
               else Inr \<lparr>mappingCache =
                           (\<lambda>sig. find (\<lambda>m. soundSignature_of m = Inr (Some (JString sig))) (rev es)),
                         storage = ls\<rparr>
           | JNull \<Rightarrow> Inl TypeError
           | JBool b \<Rightarrow> Inl TypeError
           | JNumber n \<Rightarrow> Inl TypeError
           | JString s \<Rightarrow> Inl TypeError
           | JObject members \<Rightarrow> Inl TypeError))"
proof -
  have get: "getAllSoundMappings ls =
     (case getItem ls SOUND_MAPPINGS_KEY of
        None \<Rightarrow> Inr (JArray [])
      | Some EmptyText \<Rightarrow> Inr (JArray [])
      | Some InvalidJSON \<Rightarrow> Inl SyntaxError
      | Some (JSONText v) \<Rightarrow> Inr v)"
    by (simp add: getAllSoundMappings_def split: option.splits stored_text.splits)
  have arr: "(case cache_all es Map.empty of
                Inl e \<Rightarrow> Inl e
              | Inr cache \<Rightarrow> Inr (\<lparr>mappingCache = Map.empty, storage = ls\<rparr>\<lparr>mappingCache := cache\<rparr>))
        = (if JNull \<in> set es then Inl TypeError
           else Inr \<lparr>mappingCache =
                       (\<lambda>sig. find (\<lambda>m. soundSignature_of m = Inr (Some (JString sig))) (rev es)),
                     storage = ls\<rparr>)" for es
  proof (cases "JNull \<in> set es")
    case True
    then show ?thesis by (simp add: cache_all_null)
  next
    case False
    have "(\<lambda>sig. case find (\<lambda>m. soundSignature_of m = Inr (Some (JString sig))) (rev es) of
                  Some m \<Rightarrow> Some m | None \<Rightarrow> None)
          = (\<lambda>sig. find (\<lambda>m. soundSignature_of m = Inr (Some (JString sig))) (rev es))"
      by (auto simp: fun_eq_iff split: option.splits)
    then show ?thesis using False by (simp add: cache_all_no_null)
  qed
  have load: "new_VisualMapper ls =
     (case getAllSoundMappings ls of
        Inl e \<Rightarrow> Inl e
      | Inr v \<Rightarrow>
          (case v of
             JArray es \<Rightarrow>
               if JNull \<in> set es then Inl TypeError
               else Inr \<lparr>mappingCache =
                           (\<lambda>sig. find (\<lambda>m. soundSignature_of m = Inr (Some (JString sig))) (rev es)),
                         storage = ls\<rparr>
           | JNull \<Rightarrow> Inl TypeError
           | JBool b \<Rightarrow> Inl TypeError
           | JNumber n \<Rightarrow> Inl TypeError
           | JString s \<Rightarrow> Inl TypeError
           | JObject members \<Rightarrow> Inl TypeError))"
  proof (cases "getAllSoundMappings ls")
    case (Inl e)
    then show ?thesis by (simp add: new_VisualMapper_def loadExistingMappings_def)
  next
    case (Inr v)
    show ?thesis
      by (cases v) (simp_all add: new_VisualMapper_def loadExistingMappings_def Inr arr)
  qed
  from get load show ?thesis by (rule conjI)
qed

section \<open>Verified properties: mapping cache\<close>

lemma js_rem_nonneg: "0 \<le> a \<Longrightarrow> js_rem a b = a mod \<bar>b\<bar>"
  by (cases "a = 0") (simp_all add: js_rem_def)

lemma rng_call_range:
  assumes "rng_call v = (r, v')" and "0 \<le> v"
  shows "0 \<le> r \<and> r < 1 \<and> 0 \<le> v' \<and> v' < 233280 \<and> v' = (v * 9301 + 49297) mod 233280
         \<and> r = real_of_int v' / 233280"
proof -
  have nn: "0 \<le> v * 9301 + 49297" using assms(2) by simp
  have v': "v' = (v * 9301 + 49297) mod 233280" and r: "r = real_of_int v' / 233280"
    using assms(1) js_rem_nonneg [OF nn, of 233280] by (simp_all add: rng_call_def Let_def)
  have b: "0 \<le> v'" "v' < 233280" by (simp_all add: v')
  then have "0 \<le> real_of_int v' / 233280" "real_of_int v' / 233280 < 1" by simp_all
  then show ?thesis using b v' r by blast
qed

lemma ToInt32_range: "- (2 ^ 31) \<le> ToInt32 v \<and> ToInt32 v < 2 ^ 31"
proof -
  have "0 \<le> (v + 2 ^ 31) mod 2 ^ 32" "(v + 2 ^ 31) mod 2 ^ 32 < (2 ^ 32 :: int)"
    by simp_all
  then show ?thesis unfolding ToInt32_def by simp
qed

lemma hash_loop_range:
  "- (2 ^ 31) \<le> h \<Longrightarrow> h < 2 ^ 31 \<Longrightarrow> - (2 ^ 31) \<le> hash_loop s h \<and> hash_loop s h < 2 ^ 31"
proof (induction s arbitrary: h)
  case Nil then show ?case by simp
next
  case (Cons ch s)
  show ?case using Cons.IH [of "ToInt32 (shift_left5 h - h + of_char ch)"] ToInt32_range
    by (simp add: Let_def)
qed

lemma hashSignature_range: "0 \<le> hashSignature s \<and> hashSignature s \<le> 2 ^ 31"
  using hash_loop_range [of 0 s] by (simp add: hashSignature_def abs_le_iff)

lemma pick_in_range:
  assumes "0 \<le> r" "r < 1" "arr \<noteq> []"
  shows "\<exists>e. pick arr r = Some e \<and> e \<in> set arr"
proof -
  let ?n = "length arr"
  have n: "0 < real ?n" using assms(3) by simp
  have lo: "0 \<le> \<lfloor>r * real ?n\<rfloor>" using assms(1) by simp
  have "r * real ?n < real ?n" using assms(2) n by simp
  then have "\<lfloor>r * real ?n\<rfloor> < int ?n" by (simp add: floor_less_iff)
  then have hi: "nat \<lfloor>r * real ?n\<rfloor> < ?n" using lo by linarith
  show ?thesis using lo hi by (simp add: pick_def Let_def)
qed

text \<open>
  \<open>createMapping\<close> always returns a mapping: the seed is a hash, hence not negative, so
  every draw lies in \<open>[0, 1)\<close> and every index is inside its array.
\<close>

lemma createMapping_total:
  "\<exists>ma. createMapping env af = Inr ma \<and> soundSignature ma = signature af
        \<and> frequencyRange ma = getFrequencyRange (frequency af)"
proof -
  obtain r1 g1 where c1: "rng_call (createSeededRandom (hashSignature (signature af))) = (r1, g1)"
    by (cases "rng_call (createSeededRandom (hashSignature (signature af)))")
  obtain r2 g2 where c2: "rng_call g1 = (r2, g2)" by (cases "rng_call g1")
  obtain r3 g3 where c3: "rng_call g2 = (r3, g3)" by (cases "rng_call g2")
  have s0: "0 \<le> createSeededRandom (hashSignature (signature af))"
    using hashSignature_range by (simp add: createSeededRandom_def)
  note b1 = rng_call_range [OF c1 s0]
  from b1 have g1: "0 \<le> g1" by simp
  note b2 = rng_call_range [OF c2 g1]
  from b2 have g2: "0 \<le> g2" by simp
  note b3 = rng_call_range [OF c3 g2]
  obtain vt where vt: "pick VISUAL_TYPES r1 = Some vt"
    using pick_in_range [of r1 VISUAL_TYPES] b1 by (auto simp: VISUAL_TYPES_def)
  have "SHAPE_TYPES vt \<noteq> []" by (cases vt) simp_all
  then obtain sty where sty: "pick (SHAPE_TYPES vt) r2 = Some sty"
    using pick_in_range [of r2 "SHAPE_TYPES vt"] b2 by auto
  obtain ast where ast: "pick ANIMATION_STYLES r3 = Some ast"
    using pick_in_range [of r3 ANIMATION_STYLES] b3 by (auto simp: ANIMATION_STYLES_def)
  show ?thesis
    by (simp add: createMapping_def Let_def c1 c2 c3 vt sty ast split: prod.splits)
qed















lemma has_signature_total:
  "m \<noteq> JNull \<Longrightarrow> \<exists>found. has_signature sig m = Inr found"
  by (cases m) (auto simp: has_signature_def)

lemma has_signature_mapping:
  "has_signature sig (mapping_json ma) = Inr (soundSignature ma = sig)"
  by (simp add: has_signature_def mapping_json_def)

lemma mapping_json_not_null: "mapping_json ma \<noteq> JNull"
  by (simp add: mapping_json_def)

text \<open>
  Two mappings that are the same value are the same in every field.
\<close>

lemma mapping_json_inject: "mapping_json ma = mapping_json ma' \<Longrightarrow> ma = ma'"
proof -
  assume eq: "mapping_json ma = mapping_json ma'"
  have vt: "VisualType_name a = VisualType_name b \<Longrightarrow> a = b" for a b
    by (cases a; cases b) simp_all
  from eq show ?thesis
    by (cases ma, cases ma') (auto simp: mapping_json_def dest: vt)
qed

lemma find_upsert:
  assumes "JNull \<notin> set ms" and "has_signature sig m = Inr True" and "m \<noteq> JNull"
  shows "\<exists>r. findIndex (has_signature sig) ms = Inr r
           \<and> find_js (has_signature sig) (case r of Some i \<Rightarrow> ms[i := m] | None \<Rightarrow> ms @ [m])
               = Inr (Some m)
           \<and> JNull \<notin> set (case r of Some i \<Rightarrow> ms[i := m] | None \<Rightarrow> ms @ [m])"
  using assms(1)
proof (induction ms)
  case Nil
  show ?case using assms(2,3) by simp
next
  case (Cons a ms)
  from Cons.prems have a: "a \<noteq> JNull" and ms: "JNull \<notin> set ms" by auto
  from a obtain found where f: "has_signature sig a = Inr found"
    using has_signature_total by blast
  show ?case
  proof (cases found)
    case True
    show ?thesis using assms(2,3) ms by (auto simp: f True)
  next
    case False
    from Cons.IH [OF ms] obtain r where r: "findIndex (has_signature sig) ms = Inr r"
      "find_js (has_signature sig) (case r of Some i \<Rightarrow> ms[i := m] | None \<Rightarrow> ms @ [m]) = Inr (Some m)"
      "JNull \<notin> set (case r of Some i \<Rightarrow> ms[i := m] | None \<Rightarrow> ms @ [m])"
      by blast
    show ?thesis using r a by (cases r) (simp_all add: f False)
  qed
qed

lemma getAll_setItem:
  "getAllSoundMappings (setItem ls SOUND_MAPPINGS_KEY (JSON_stringify v)) = Inr v"
  by (simp add: getAllSoundMappings_def getItem_def setItem_def JSON_stringify_def)

lemma saveSoundMapping_readable:
  assumes "getAllSoundMappings ls = Inr (JArray ms)" and "JNull \<notin> set ms"
  shows "\<exists>ls' ms'. saveSoundMapping m ls = Inr ls'
           \<and> setItemCalls ls' = Suc (setItemCalls ls)
           \<and> getSoundMapping (soundSignature m) ls' = Inr (Some (mapping_json m))
           \<and> getAllSoundMappings ls' = Inr (JArray ms') \<and> JNull \<notin> set ms'"
proof -
  have t: "has_signature (soundSignature m) (mapping_json m) = Inr True"
    by (simp add: has_signature_mapping)
  from find_upsert [OF assms(2) t mapping_json_not_null]
  obtain r where r: "findIndex (has_signature (soundSignature m)) ms = Inr r"
    "find_js (has_signature (soundSignature m))
       (case r of Some i \<Rightarrow> ms[i := mapping_json m] | None \<Rightarrow> ms @ [mapping_json m])
     = Inr (Some (mapping_json m))"
    "JNull \<notin> set (case r of Some i \<Rightarrow> ms[i := mapping_json m] | None \<Rightarrow> ms @ [mapping_json m])"
    by blast
  let ?ms' = "case r of Some i \<Rightarrow> ms[i := mapping_json m] | None \<Rightarrow> ms @ [mapping_json m]"
  let ?ls' = "setItem ls SOUND_MAPPINGS_KEY (JSON_stringify (JArray ?ms'))"
  have s: "saveSoundMapping m ls = Inr ?ls'"
    by (simp add: saveSoundMapping_def assms(1) r(1) Let_def)
  have c: "setItemCalls ?ls' = Suc (setItemCalls ls)" by (simp add: setItem_def)
  have g: "getAllSoundMappings ?ls' = Inr (JArray ?ms')" by (rule getAll_setItem)
  have f: "getSoundMapping (soundSignature m) ?ls' = Inr (Some (mapping_json m))"
    by (simp add: getSoundMapping_def g r(2))
  from s c f g r(3) show ?thesis by blast
qed

text \<open>
  The stored text stays an array without \<open>null\<close>: the constructor of the mapper returns
  only if it is, and \<open>getOrCreateMapping\<close> and \<open>clearCache\<close> keep it so.
\<close>

lemma new_VisualMapper_readable:
  assumes "new_VisualMapper ls = Inr st"
  shows "\<exists>ms. getAllSoundMappings (storage st) = Inr (JArray ms) \<and> JNull \<notin> set ms"
proof -
  from assms obtain v where v: "getAllSoundMappings ls = Inr v"
    by (cases "getAllSoundMappings ls")
       (simp_all add: new_VisualMapper_def loadExistingMappings_def)
  from assms v obtain ms where ms: "v = JArray ms"
    by (cases v) (simp_all add: new_VisualMapper_def loadExistingMappings_def)
  from assms v ms obtain cache where c: "cache_all ms Map.empty = Inr cache"
    "st = \<lparr>mappingCache = cache, storage = ls\<rparr>"
    by (cases "cache_all ms Map.empty")
       (auto simp: new_VisualMapper_def loadExistingMappings_def)
  have "JNull \<notin> set ms" using c(1) cache_all_null [of ms Map.empty] by auto
  then show ?thesis using v ms c(2) by simp
qed

lemma getOrCreateMapping_readable:
  assumes "getAllSoundMappings (storage st) = Inr (JArray ms)" and "JNull \<notin> set ms"
  shows "\<exists>ms'. getAllSoundMappings (storage (snd (getOrCreateMapping env af st))) = Inr (JArray ms')
           \<and> JNull \<notin> set ms'"
proof (cases "mappingCache st (signature af)")
  case (Some cached)
  then show ?thesis using assms by (simp add: getOrCreateMapping_def)
next
  case None
  obtain ma where ma: "createMapping env af = Inr ma" using createMapping_total by blast
  from saveSoundMapping_readable [OF assms, of ma]
  obtain ls' ms' where s: "saveSoundMapping ma (storage st) = Inr ls'"
    "getAllSoundMappings ls' = Inr (JArray ms')" "JNull \<notin> set ms'"
    by blast
  show ?thesis using s by (simp add: getOrCreateMapping_def None ma Let_def)
qed

lemma clearCache_readable:
  "getAllSoundMappings (storage (clearCache st)) = Inr (JArray [])"
  by (simp add: clearCache_def clearAllMappings_def removeItem_def getAllSoundMappings_def
      getItem_def)

text \<open>
  C1. On the first sight of a signature, with the stored text readable as an array without
  \<open>null\<close> (as it is whenever a mapper exists), \<open>getOrCreateMapping\<close> creates a mapping,
  caches it and saves it with one write. A second call with the same signature, whatever
  the other features, the identifier on offer and the time, returns that same mapping and
  leaves the cache and the store as they are: the two calls make exactly one write, and the
  store holds the mapping under its signature.
\<close>

theorem getOrCreateMapping_idempotent:
  assumes first_sight: "mappingCache st (signature af) = None"
    and readable: "getAllSoundMappings (storage st) = Inr (JArray ms)"
    and no_null: "JNull \<notin> set ms"
    and same: "signature af' = signature af"
  shows "\<exists>m1 st1. getOrCreateMapping env af st = (Inr (mapping_json m1), st1)
           \<and> getOrCreateMapping env' af' st1 = (Inr (mapping_json m1), st1)
           \<and> setItemCalls (storage st1) = Suc (setItemCalls (storage st))
           \<and> createMapping env af = Inr m1
           \<and> soundSignature m1 = signature af
           \<and> mappingCache st1 (signature af) = Some (mapping_json m1)
           \<and> getSoundMapping (signature af) (storage st1) = Inr (Some (mapping_json m1))"
proof -
  obtain m1 where m1: "createMapping env af = Inr m1" "soundSignature m1 = signature af"
    using createMapping_total by blast
  obtain ls' where ls': "saveSoundMapping m1 (storage st) = Inr ls'"
    "setItemCalls ls' = Suc (setItemCalls (storage st))"
    "getSoundMapping (soundSignature m1) ls' = Inr (Some (mapping_json m1))"
    using saveSoundMapping_readable [OF readable no_null] by blast
  let ?st1 = "st\<lparr>mappingCache := (mappingCache st)(signature af \<mapsto> mapping_json m1), storage := ls'\<rparr>"
  have c1: "getOrCreateMapping env af st = (Inr (mapping_json m1), ?st1)"
    by (simp add: getOrCreateMapping_def first_sight m1 ls' Let_def)
  have c2: "getOrCreateMapping env' af' ?st1 = (Inr (mapping_json m1), ?st1)"
    by (simp add: getOrCreateMapping_def same)
  show ?thesis using c1 c2 ls' m1 by simp
qed

theorem getOrCreateMapping_idempotent_witness:
  "mappingCache \<lparr>mappingCache = Map.empty, storage = \<lparr>items = Map.empty, setItemCalls = 0\<rparr>\<rparr>
     (signature \<lparr>frequency = 100, amplitude = 1 / 2, lowFreq = 40, midFreq = 60, highFreq = 80,
                 signature = ''100-40-60-80''\<rparr>) = None
   \<and> getAllSoundMappings
       (storage \<lparr>mappingCache = Map.empty, storage = \<lparr>items = Map.empty, setItemCalls = 0\<rparr>\<rparr>)
       = Inr (JArray [])
   \<and> JNull \<notin> set []
   \<and> signature \<lparr>frequency = 120, amplitude = 1 / 4, lowFreq = 41, midFreq = 62, highFreq = 83,
                 signature = ''100-40-60-80''\<rparr>
       = signature \<lparr>frequency = 100, amplitude = 1 / 2, lowFreq = 40, midFreq = 60,
                   highFreq = 80, signature = ''100-40-60-80''\<rparr>
   \<and> (\<exists>m1 st1.
         getOrCreateMapping \<lparr>randomUUID = ''id-1'', nowISOString = ''t1''\<rparr>
           \<lparr>frequency = 100, amplitude = 1 / 2, lowFreq = 40, midFreq = 60, highFreq = 80,
            signature = ''100-40-60-80''\<rparr>
           \<lparr>mappingCache = Map.empty, storage = \<lparr>items = Map.empty, setItemCalls = 0\<rparr>\<rparr>
           = (Inr (mapping_json m1), st1)
         \<and> getOrCreateMapping \<lparr>randomUUID = ''id-2'', nowISOString = ''t2''\<rparr>
           \<lparr>frequency = 120, amplitude = 1 / 4, lowFreq = 41, midFreq = 62, highFreq = 83,
            signature = ''100-40-60-80''\<rparr> st1
           = (Inr (mapping_json m1), st1)
         \<and> setItemCalls (storage st1) = 1
         \<and> mappingId m1 = ''id-1'')"
proof -
  let ?st = "\<lparr>mappingCache = Map.empty, storage = \<lparr>items = Map.empty, setItemCalls = 0\<rparr>\<rparr>"
  let ?af = "\<lparr>frequency = 100, amplitude = 1 / 2, lowFreq = 40, midFreq = 60, highFreq = 80,
              signature = ''100-40-60-80''\<rparr>"
  let ?af' = "\<lparr>frequency = 120, amplitude = 1 / 4, lowFreq = 41, midFreq = 62, highFreq = 83,
               signature = ''100-40-60-80''\<rparr>"
  let ?env = "\<lparr>randomUUID = ''id-1'', nowISOString = ''t1''\<rparr>"
  let ?env' = "\<lparr>randomUUID = ''id-2'', nowISOString = ''t2''\<rparr>"
  have fs: "mappingCache ?st (signature ?af) = None" by simp
  have rd: "getAllSoundMappings (storage ?st) = Inr (JArray [])"
    by (simp add: getAllSoundMappings_def getItem_def)
  have nn: "JNull \<notin> set []" by simp
  have sm: "signature ?af' = signature ?af" by simp
  from getOrCreateMapping_idempotent [OF fs rd nn sm, of ?env ?env']
  obtain m1 st1 where r: "getOrCreateMapping ?env ?af ?st = (Inr (mapping_json m1), st1)"
    "getOrCreateMapping ?env' ?af' st1 = (Inr (mapping_json m1), st1)"
    "setItemCalls (storage st1) = Suc (setItemCalls (storage ?st))"
    "createMapping ?env ?af = Inr m1"
    by blast
  have "mappingId m1 = ''id-1''"
    using r(4) by (auto simp: createMapping_def Let_def split: prod.splits option.splits)
  then show ?thesis using fs rd nn sm r by auto
qed

text \<open>
  C10. \<open>getFrequencyRange\<close> returns one of five labels for every frequency, each label on
  its own interval, and the \<open>frequencyRange\<close> of every mapping that \<open>createMapping\<close>
  produces is the label of the frequency of the features, hence one of the five.
\<close>

theorem getFrequencyRange_partition:
  "(getFrequencyRange f = ''sub-bass'' \<longleftrightarrow> f < 250)
   \<and> (getFrequencyRange f = ''bass'' \<longleftrightarrow> 250 \<le> f \<and> f < 500)
   \<and> (getFrequencyRange f = ''midrange'' \<longleftrightarrow> 500 \<le> f \<and> f < 2000)
   \<and> (getFrequencyRange f = ''upper-mid'' \<longleftrightarrow> 2000 \<le> f \<and> f < 6000)
   \<and> (getFrequencyRange f = ''treble'' \<longleftrightarrow> 6000 \<le> f)
   \<and> getFrequencyRange f \<in> {''sub-bass'', ''bass'', ''midrange'', ''upper-mid'', ''treble''}
   \<and> (\<exists>ma. createMapping env af = Inr ma
          \<and> frequencyRange ma = getFrequencyRange (frequency af)
          \<and> frequencyRange ma \<in> {''sub-bass'', ''bass'', ''midrange'', ''upper-mid'', ''treble''})"
proof -
  have p: "getFrequencyRange g \<in> {''sub-bass'', ''bass'', ''midrange'', ''upper-mid'', ''treble''}" for g
    by (simp add: getFrequencyRange_def)
  obtain ma where ma: "createMapping env af = Inr ma"
    "frequencyRange ma = getFrequencyRange (frequency af)"
    using createMapping_total by blast
  have "\<exists>ma. createMapping env af = Inr ma
          \<and> frequencyRange ma = getFrequencyRange (frequency af)
          \<and> frequencyRange ma \<in> {''sub-bass'', ''bass'', ''midrange'', ''upper-mid'', ''treble''}"
    using ma p [of "frequency af"] by simp
  moreover have "(getFrequencyRange f = ''sub-bass'' \<longleftrightarrow> f < 250)"
    "(getFrequencyRange f = ''bass'' \<longleftrightarrow> 250 \<le> f \<and> f < 500)"
    "(getFrequencyRange f = ''midrange'' \<longleftrightarrow> 500 \<le> f \<and> f < 2000)"
    "(getFrequencyRange f = ''upper-mid'' \<longleftrightarrow> 2000 \<le> f \<and> f < 6000)"
    "(getFrequencyRange f = ''treble'' \<longleftrightarrow> 6000 \<le> f)"
    by (simp_all add: getFrequencyRange_def)
  ultimately show ?thesis using p [of f] by blast
qed

section \<open>Verified properties: animation engine\<close>

lemmas sample_defs = sample_mapping_def sample_shape_def sample_particle_def
  sample_options_def sample_renderer_def sample_features_def sample_env_def

lemma map_filter_append:
  "List.map_filter f (es @ es') = List.map_filter f es @ List.map_filter f es'"
  by (simp add: List.map_filter_def)

lemma splice_loop_take:
  "i \<le> length es \<Longrightarrow>
   splice_loop body i (es, calls) =
     (List.map_filter (\<lambda>e. map_option fst (body e)) (take i es) @ drop i es,
      calls @ rev (List.map_filter (\<lambda>e. map_option snd (body e)) (take i es)))"
proof (induction i arbitrary: es calls)
  case 0
  then show ?case by simp
next
  case (Suc i)
  then have i: "i < length es" by simp
  have tk: "take (Suc i) es = take i es @ [es ! i]" using i by (simp add: take_Suc_conv_app_nth)
  show ?case
  proof (cases "body (es ! i)")
    case None
    have "i \<le> length (take i es @ drop (Suc i) es)" using i by simp
    from Suc.IH [OF this, of calls] show ?thesis using i
      by (simp add: None tk map_filter_append)
  next
    case (Some a)
    obtain e' call where a: "a = (e', call)" by (cases a)
    have "i \<le> length (es[i := e'])" using i by simp
    from Suc.IH [OF this, of "calls @ [call]"] show ?thesis using i
      by (simp add: Some a tk map_filter_append upd_conv_take_nth_drop)
  qed
qed

lemma splice_loop_all:
  "splice_loop body (length es) (es, calls) =
     (List.map_filter (\<lambda>e. map_option fst (body e)) es,
      calls @ rev (List.map_filter (\<lambda>e. map_option snd (body e)) es))"
  using splice_loop_take [of "length es" es body calls] by simp


lemma updateAnimatedShapes_eq:
  "updateAnimatedShapes now st =
     st\<lparr>animatedShapes :=
          List.map_filter (\<lambda>e. map_option fst (updateShape (currentOptions st) (animationTime st) now e))
            (animatedShapes st),
        drawn := drawn st @ rev (List.map_filter
            (\<lambda>e. map_option snd (updateShape (currentOptions st) (animationTime st) now e))
            (animatedShapes st))\<rparr>"
  by (simp add: updateAnimatedShapes_def splice_loop_all)

lemma updateParticles_eq:
  "updateParticles now st =
     st\<lparr>particles :=
          List.map_filter (\<lambda>e. map_option fst (updateParticle (currentOptions st) now e)) (particles st),
        drawn := drawn st @ rev (List.map_filter
            (\<lambda>e. map_option snd (updateParticle (currentOptions st) now e)) (particles st))\<rparr>"
  by (simp add: updateParticles_def splice_loop_all)

lemma updateAnimatedShapes_legacy_eq:
  "updateAnimatedShapes_legacy now st =
     st\<lparr>animatedShapes :=
          List.map_filter (\<lambda>e. map_option fst (updateShape_legacy (animationTime st) now e))
            (animatedShapes st),
        drawn := drawn st @ rev (List.map_filter
            (\<lambda>e. map_option snd (updateShape_legacy (animationTime st) now e))
            (animatedShapes st))\<rparr>"
  by (simp add: updateAnimatedShapes_legacy_def splice_loop_all)

lemma updateParticles_legacy_eq:
  "updateParticles_legacy now st =
     st\<lparr>particles :=
          List.map_filter (\<lambda>e. map_option fst (updateParticle_legacy now e)) (particles st),
        drawn := drawn st @ rev (List.map_filter
            (\<lambda>e. map_option snd (updateParticle_legacy now e)) (particles st))\<rparr>"
  by (simp add: updateParticles_legacy_def splice_loop_all)

lemma progress_below_one:
  assumes "0 < d" shows "(min (e / d) 1 \<ge> 1) = (d \<le> (e :: real))"
  using assms by (simp add: min_def pos_le_divide_eq)

lemma updateShape_legacy_Some:
  assumes "updateShape_legacy t now s = Some (s', call)" "0 < duration s"
  shows "startTime s' = startTime s \<and> duration s' = duration s
         \<and> baseSize s' = baseSize s \<and> baseOpacity s' = baseOpacity s
         \<and> now - startTime s < duration s"
  using assms
  by (auto simp: updateShape_legacy_def Let_def progress_below_one split: if_splits)

lemma updateShape_legacy_None:
  assumes "0 < duration s"
  shows "(updateShape_legacy t now s = None) = (duration s \<le> now - startTime s)"
  using assms by (simp add: updateShape_legacy_def Let_def progress_below_one)


lemma updateParticle_legacy_None:
  assumes "0 < duration p"
  shows "(updateParticle_legacy now p = None) = (duration p \<le> now - startTime p)"
  using assms by (simp add: updateParticle_legacy_def Let_def progress_below_one)


lemma randomDuration_pos: "0 \<le> r \<Longrightarrow> 1000 \<le> randomDuration r"
  by (simp add: randomDuration_def)

lemma new_shape_fields:
  "duration (new_shape sc env n kind mp px py sz opacity) = randomDuration (mathRandom env n)
   \<and> startTime (new_shape sc env n kind mp px py sz opacity) = performanceNowAtSpawn env
   \<and> baseSize (new_shape sc env n kind mp px py sz opacity) = sz
   \<and> baseOpacity (new_shape sc env n kind mp px py sz opacity) = opacity"
  by (simp add: new_shape_def Let_def)



lemma updateShape_nofade:
  assumes "\<not> fadeEnabled opts"
  shows "updateShape opts t now s \<noteq> None"
  using assms by (simp add: updateShape_def Let_def)
















lemma updateShape_fade:
  assumes "fadeEnabled opts"
  shows "updateShape opts t now s =
     (if now - startTime s > fadeDuration opts + 1500 then None
      else Some (s\<lparr>x := x s + vx s * (1 / 60), y := y s + vy s * (1 / 60),
                  rotation := rotation s + rotationSpeed s * (1 / 60),
                  scale := 1 / 2 + easeInOutCubic (min ((now - startTime s) / 1000) 1) * scaleSpeed s\<rparr>,
                 DrawShape (s\<lparr>x := x s + vx s * (1 / 60), y := y s + vy s * (1 / 60),
                  rotation := rotation s + rotationSpeed s * (1 / 60),
                  scale := 1 / 2 + easeInOutCubic (min ((now - startTime s) / 1000) 1) * scaleSpeed s\<rparr>)
                  (baseSize s * (1 / 2 + easeInOutCubic (min ((now - startTime s) / 1000) 1) * scaleSpeed s))
                  (if now - startTime s > fadeDuration opts
                   then baseOpacity s * (1 - (now - startTime s - fadeDuration opts) / 1500)
                   else baseOpacity s)))"
  using assms by (simp add: updateShape_def Let_def)

lemma updateParticle_fade:
  assumes "fadeEnabled opts"
  shows "updateParticle opts now p =
     (if now - startTime p > fadeDuration opts + 1500 then None
      else Some (p\<lparr>x := x p + vx p * (1 / 60), y := y p + vy p * (1 / 60),
                  rotation := rotation p + rotationSpeed p * (1 / 60),
                  scale := 1 / 2 + easeOutQuad (min ((now - startTime p) / 1000) 1) * (maxScale p - 1 / 2)\<rparr>,
                 DrawParticle (p\<lparr>x := x p + vx p * (1 / 60), y := y p + vy p * (1 / 60),
                  rotation := rotation p + rotationSpeed p * (1 / 60),
                  scale := 1 / 2 + easeOutQuad (min ((now - startTime p) / 1000) 1) * (maxScale p - 1 / 2)\<rparr>)
                  (if now - startTime p > fadeDuration opts
                   then 1 - (now - startTime p - fadeDuration opts) / 1500
                   else 1)))"
  using assms by (simp add: updateParticle_def Let_def)

lemma updateAnimatedElements_eq:
  "animatedShapes (updateAnimatedElements now st)
     = List.map_filter (\<lambda>e. map_option fst (updateShape (currentOptions st) (animationTime st) now e))
         (animatedShapes st)
   \<and> particles (updateAnimatedElements now st)
     = List.map_filter (\<lambda>e. map_option fst (updateParticle (currentOptions st) now e)) (particles st)
   \<and> drawn (updateAnimatedElements now st)
     = drawn st
       @ rev (List.map_filter
               (\<lambda>e. map_option snd (updateShape (currentOptions st) (animationTime st) now e))
               (animatedShapes st))
       @ rev (List.map_filter (\<lambda>e. map_option snd (updateParticle (currentOptions st) now e))
               (particles st))"
  by (simp add: updateAnimatedElements_def updateParticles_eq updateAnimatedShapes_eq)

text \<open>
  C2, as stated, fails in its last part: the fade is not shared. Two shapes with the same
  base opacity 0.8, spawned at 0 and at 1000, are drawn on the tick at 4000 (fade duration
  3000) with the opacities 4/15 and 4/5: each is measured from its own spawn time. The
  calls are listed in the order the loop makes them, last shape first.
\<close>

theorem fade_not_shared_counterexample:
  "map draw_opacity (drawn
     (render (sample_env 4000) sample_mapping (sample_features 0) (sample_options True)
        (sample_renderer (sample_options True) [sample_shape 0 1000, sample_shape 1000 1000])))
   = [4 / 5, 4 / 15]"
  by (simp add: render_def Let_def sample_defs updateAnimatedElements_def updateAnimatedShapes_def
      updateParticles_def updateShape_def numeral_2_eq_2)

text \<open>
  C2, amended. With the fade switched on, an entity whose elapsed time, measured from its own
  spawn time, is at most the fade duration is drawn at its full opacity (its base opacity
  for a shape, 1 for a particle); beyond the fade duration the opacity falls linearly and
  reaches 0 at the fade duration plus 1500 ms; once the elapsed time exceeds the fade
  duration plus 1500 ms the entity is removed from the live list and not drawn. The live
  lists after a tick are the entities that the pass keeps, and the drawing calls of the tick
  are those of the passes. For a fade duration of 3000 ms and a shape spawned at 0 this is
  full opacity up to 3000, opacity 0 at 4500, removal after 4500.
\<close>

theorem fade_window_per_entity:
  assumes "fadeEnabled opts"
  shows "(now - startTime s \<le> fadeDuration opts \<longrightarrow>
            (\<exists>s'. updateShape opts t now s
                    = Some (s', DrawShape s' (baseSize s * scale s') (baseOpacity s))))
       \<and> (fadeDuration opts < now - startTime s \<and> now - startTime s \<le> fadeDuration opts + 1500 \<longrightarrow>
            (\<exists>s'. updateShape opts t now s
                    = Some (s', DrawShape s' (baseSize s * scale s')
                       (baseOpacity s * (1 - (now - startTime s - fadeDuration opts) / 1500)))))
       \<and> (fadeDuration opts + 1500 < now - startTime s \<longrightarrow> updateShape opts t now s = None)
       \<and> (now - startTime p \<le> fadeDuration opts \<longrightarrow>
            (\<exists>p'. updateParticle opts now p = Some (p', DrawParticle p' 1)))
       \<and> (fadeDuration opts < now - startTime p \<and> now - startTime p \<le> fadeDuration opts + 1500 \<longrightarrow>
            (\<exists>p'. updateParticle opts now p
                    = Some (p', DrawParticle p' (1 - (now - startTime p - fadeDuration opts) / 1500))))
       \<and> (fadeDuration opts + 1500 < now - startTime p \<longrightarrow> updateParticle opts now p = None)
       \<and> animatedShapes (updateAnimatedElements now st)
           = List.map_filter
               (\<lambda>e. map_option fst (updateShape (currentOptions st) (animationTime st) now e))
               (animatedShapes st)
       \<and> particles (updateAnimatedElements now st)
           = List.map_filter (\<lambda>e. map_option fst (updateParticle (currentOptions st) now e))
               (particles st)
       \<and> drawn (updateAnimatedElements now st)
           = drawn st
             @ rev (List.map_filter
                     (\<lambda>e. map_option snd (updateShape (currentOptions st) (animationTime st) now e))
                     (animatedShapes st))
             @ rev (List.map_filter
                     (\<lambda>e. map_option snd (updateParticle (currentOptions st) now e))
                     (particles st))"
proof -
  have a: "now - startTime s \<le> fadeDuration opts \<longrightarrow>
            (\<exists>s'. updateShape opts t now s
                    = Some (s', DrawShape s' (baseSize s * scale s') (baseOpacity s)))"
    by (simp add: updateShape_fade [OF assms])
  have b: "fadeDuration opts < now - startTime s \<and> now - startTime s \<le> fadeDuration opts + 1500 \<longrightarrow>
            (\<exists>s'. updateShape opts t now s
                    = Some (s', DrawShape s' (baseSize s * scale s')
                       (baseOpacity s * (1 - (now - startTime s - fadeDuration opts) / 1500))))"
    by (simp add: updateShape_fade [OF assms])
  have c: "fadeDuration opts + 1500 < now - startTime s \<longrightarrow> updateShape opts t now s = None"
    by (simp add: updateShape_fade [OF assms])
  have d: "now - startTime p \<le> fadeDuration opts \<longrightarrow>
            (\<exists>p'. updateParticle opts now p = Some (p', DrawParticle p' 1))"
    by (simp add: updateParticle_fade [OF assms])
  have e: "fadeDuration opts < now - startTime p \<and> now - startTime p \<le> fadeDuration opts + 1500 \<longrightarrow>
            (\<exists>p'. updateParticle opts now p
                    = Some (p', DrawParticle p' (1 - (now - startTime p - fadeDuration opts) / 1500)))"
    by (simp add: updateParticle_fade [OF assms])
  have f: "fadeDuration opts + 1500 < now - startTime p \<longrightarrow> updateParticle opts now p = None"
    by (simp add: updateParticle_fade [OF assms])
  from a b c d e f updateAnimatedElements_eq [of now st] show ?thesis by (intro conjI) blast+
qed

theorem fade_window_per_entity_witness:
  "fadeEnabled (sample_options True)
   \<and> 3000 - startTime (sample_shape 0 1000) \<le> fadeDuration (sample_options True)
   \<and> (\<exists>s'. updateShape (sample_options True) 0 3000 (sample_shape 0 1000)
             = Some (s', DrawShape s' (baseSize (sample_shape 0 1000) * scale s')
                           (baseOpacity (sample_shape 0 1000))))
   \<and> fadeDuration (sample_options True) < 4500 - startTime (sample_shape 0 1000)
   \<and> 4500 - startTime (sample_shape 0 1000) \<le> fadeDuration (sample_options True) + 1500
   \<and> (\<exists>s'. updateShape (sample_options True) 0 4500 (sample_shape 0 1000)
             = Some (s', DrawShape s' (baseSize (sample_shape 0 1000) * scale s') 0))
   \<and> fadeDuration (sample_options True) + 1500 < 4501 - startTime (sample_shape 0 1000)
   \<and> updateShape (sample_options True) 0 4501 (sample_shape 0 1000) = None
   \<and> 3000 - startTime (sample_particle 0 1000) \<le> fadeDuration (sample_options True)
   \<and> (\<exists>p'. updateParticle (sample_options True) 3000 (sample_particle 0 1000)
             = Some (p', DrawParticle p' 1))
   \<and> fadeDuration (sample_options True) < 3750 - startTime (sample_particle 0 1000)
   \<and> 3750 - startTime (sample_particle 0 1000) \<le> fadeDuration (sample_options True) + 1500
   \<and> (\<exists>p'. updateParticle (sample_options True) 3750 (sample_particle 0 1000)
             = Some (p', DrawParticle p' (1 / 2)))
   \<and> fadeDuration (sample_options True) + 1500 < 4501 - startTime (sample_particle 0 1000)
   \<and> updateParticle (sample_options True) 4501 (sample_particle 0 1000) = None"
proof -
  have fe: "fadeEnabled (sample_options True)" by (simp add: sample_defs)
  note t = fade_window_per_entity [OF fe, where s = "sample_shape 0 1000" and t = 0
      and p = "sample_particle 0 1000"]
  have h1: "3000 - startTime (sample_shape 0 1000) \<le> fadeDuration (sample_options True)"
    by (simp add: sample_defs)
  have h2: "fadeDuration (sample_options True) < 4500 - startTime (sample_shape 0 1000)"
    "4500 - startTime (sample_shape 0 1000) \<le> fadeDuration (sample_options True) + 1500"
    by (simp_all add: sample_defs)
  have h3: "fadeDuration (sample_options True) + 1500 < 4501 - startTime (sample_shape 0 1000)"
    by (simp add: sample_defs)
  from t [where now = 3000] h1
  have r1: "\<exists>s'. updateShape (sample_options True) 0 3000 (sample_shape 0 1000)
             = Some (s', DrawShape s' (baseSize (sample_shape 0 1000) * scale s')
                           (baseOpacity (sample_shape 0 1000)))"
    by blast
  from t [where now = 4500] h2
  have "\<exists>s'. updateShape (sample_options True) 0 4500 (sample_shape 0 1000)
             = Some (s', DrawShape s' (baseSize (sample_shape 0 1000) * scale s')
                 (baseOpacity (sample_shape 0 1000)
                    * (1 - (4500 - startTime (sample_shape 0 1000) - fadeDuration (sample_options True))
                            / 1500)))"
    by blast
  moreover have "baseOpacity (sample_shape 0 1000)
                    * (1 - (4500 - startTime (sample_shape 0 1000) - fadeDuration (sample_options True))
                            / 1500) = 0"
    by (simp add: sample_defs)
  ultimately have r2: "\<exists>s'. updateShape (sample_options True) 0 4500 (sample_shape 0 1000)
             = Some (s', DrawShape s' (baseSize (sample_shape 0 1000) * scale s') 0)"
    by simp
  from t [where now = 4501] h3
  have r3: "updateShape (sample_options True) 0 4501 (sample_shape 0 1000) = None"
    by blast
  have k1: "3000 - startTime (sample_particle 0 1000) \<le> fadeDuration (sample_options True)"
    by (simp add: sample_defs)
  have k2: "fadeDuration (sample_options True) < 3750 - startTime (sample_particle 0 1000)"
    "3750 - startTime (sample_particle 0 1000) \<le> fadeDuration (sample_options True) + 1500"
    by (simp_all add: sample_defs)
  have k3: "fadeDuration (sample_options True) + 1500 < 4501 - startTime (sample_particle 0 1000)"
    by (simp add: sample_defs)
  from t [where now = 3000] k1
  have q1: "\<exists>p'. updateParticle (sample_options True) 3000 (sample_particle 0 1000)
             = Some (p', DrawParticle p' 1)"
    by blast
  from t [where now = 3750] k2
  have "\<exists>p'. updateParticle (sample_options True) 3750 (sample_particle 0 1000)
             = Some (p', DrawParticle p'
                 (1 - (3750 - startTime (sample_particle 0 1000) - fadeDuration (sample_options True))
                        / 1500))"
    by blast
  moreover have "1 - (3750 - startTime (sample_particle 0 1000) - fadeDuration (sample_options True))
                        / 1500 = 1 / 2"
    by (simp add: sample_defs)
  ultimately have q2: "\<exists>p'. updateParticle (sample_options True) 3750 (sample_particle 0 1000)
             = Some (p', DrawParticle p' (1 / 2))"
    by simp
  from t [where now = 4501] k3
  have q3: "updateParticle (sample_options True) 4501 (sample_particle 0 1000) = None"
    by blast
  from fe h1 r1 h2 r2 h3 r3 k1 q1 k2 q2 k3 q3 show ?thesis by (intro conjI) blast+
qed

lemma last_map_filter_snoc:
  "f e = Some e' \<Longrightarrow> List.map_filter f (es @ [e]) \<noteq> [] \<and> last (List.map_filter f (es @ [e])) = e'"
  by (simp add: map_filter_append)

lemma new_shape_survives_legacy:
  assumes "performanceNow env \<le> performanceNowAtSpawn env" "0 \<le> mathRandom env n"
  shows "\<exists>s' call. updateShape_legacy t (performanceNow env)
                     (new_shape sc env n kind mp px py sz opacity) = Some (s', call)
           \<and> startTime s' = performanceNowAtSpawn env \<and> baseSize s' = sz \<and> baseOpacity s' = opacity"
proof -
  let ?s = "new_shape sc env n kind mp px py sz opacity"
  have d: "0 < duration ?s"
    using randomDuration_pos [OF assms(2)] new_shape_fields [of sc env n kind mp px py sz opacity]
    by simp
  have "\<not> duration ?s \<le> performanceNow env - startTime ?s"
    using d assms(1) new_shape_fields [of sc env n kind mp px py sz opacity] by simp
  then have "updateShape_legacy t (performanceNow env) ?s \<noteq> None"
    using updateShape_legacy_None [OF d] by simp
  then obtain s' call where s: "updateShape_legacy t (performanceNow env) ?s = Some (s', call)"
    by (cases "updateShape_legacy t (performanceNow env) ?s") auto
  from updateShape_legacy_Some [OF s d] s
    new_shape_fields [of sc env n kind mp px py sz opacity]
  show ?thesis by simp
qed

lemma updateShape_Some_fields:
  assumes "updateShape opts t now s = Some (s', call)"
  shows "startTime s' = startTime s \<and> baseSize s' = baseSize s \<and> baseOpacity s' = baseOpacity s"
  using assms
  by (auto simp: updateShape_def Let_def split: if_splits)

lemma new_shape_survives:
  assumes "performanceNow env \<le> performanceNowAtSpawn env"
    and "\<not> fadeEnabled opts \<or> - 1500 \<le> fadeDuration opts"
  shows "\<exists>s' call. updateShape opts t (performanceNow env)
                     (new_shape sc env n kind mp px py sz opacity) = Some (s', call)
           \<and> startTime s' = performanceNowAtSpawn env \<and> baseSize s' = sz \<and> baseOpacity s' = opacity"
proof -
  let ?s = "new_shape sc env n kind mp px py sz opacity"
  have e: "performanceNow env - startTime ?s \<le> 0"
    using assms(1) new_shape_fields [of sc env n kind mp px py sz opacity] by simp
  have "updateShape opts t (performanceNow env) ?s \<noteq> None"
  proof (cases "fadeEnabled opts")
    case True
    then have "\<not> performanceNow env - startTime ?s > fadeDuration opts + 1500"
      using assms(2) e by simp
    then show ?thesis using True by (simp add: updateShape_def Let_def)
  next
    case False
    then show ?thesis by (rule updateShape_nofade)
  qed
  then obtain s' call where s: "updateShape opts t (performanceNow env) ?s = Some (s', call)"
    by (cases "updateShape opts t (performanceNow env) ?s") auto
  from updateShape_Some_fields [OF s] s new_shape_fields [of sc env n kind mp px py sz opacity]
  show ?thesis by simp
qed

lemma render_legacy_spawn:
  assumes "visualType mp \<noteq> particle" "1 / 100 \<le> amplitude af * sensitivity opts * 2"
  shows "\<exists>st2. render_legacy env mp af opts st
           = updateAnimatedElements_legacy (performanceNow env)
               (st2\<lparr>animatedShapes := animatedShapes st @
                   [new_shape (8 / 10) env 2 (visualType mp) mp
                      (mathRandom env 0 * canvasWidth st) (mathRandom env 1 * canvasHeight st)
                      (sizeBase mp * (1 + amplitude af * sensitivity opts * 2 * 3))
                      (min (max (opacityBase mp * globalOpacity opts
                                  * (3 / 10 + amplitude af * sensitivity opts * 2 * (15 / 10)))
                                (2 / 10)) 1)]\<rparr>)"
  using assms
  by (intro exI [of _ "st\<lparr>lastFrameTime := performanceNow env,
        animationTime := animationTime st + (performanceNow env - lastFrameTime st) / 1000\<rparr>"])
     (cases "visualType mp",
      simp_all add: render_legacy_def Let_def createAnimatedShape_legacy_def)

lemma render_spawn:
  assumes "visualType mp \<noteq> particle" "2 / 100 \<le> amplitude af * sensitivity opts"
  shows "\<exists>st2. currentOptions st2 = opts \<and> render env mp af opts st
           = updateAnimatedElements (performanceNow env)
               (st2\<lparr>animatedShapes := animatedShapes st @
                   [new_shape (12 / 10) env 2 (visualType mp) mp
                      (mathRandom env 0 * canvasWidth st) (mathRandom env 1 * canvasHeight st)
                      (max (sizeBase mp * (1 + amplitude af * sensitivity opts * 3)) 40)
                      (8 / 10)]\<rparr>)"
  using assms
  by (intro exI [of _ "st\<lparr>currentOptions := opts, lastFrameTime := performanceNow env,
        animationTime := animationTime st + (performanceNow env - lastFrameTime st) / 1000\<rparr>"])
     (cases "visualType mp", simp_all add: render_def Let_def createAnimatedShape_def)

lemma spawned_shape_legacy:
  assumes "visualType mp \<noteq> particle" "1 / 100 \<le> amplitude af * sensitivity opts * 2"
    and "performanceNow env \<le> performanceNowAtSpawn env" "0 \<le> mathRandom env 2"
  shows "animatedShapes (render_legacy env mp af opts st) \<noteq> []
       \<and> startTime (last (animatedShapes (render_legacy env mp af opts st))) = performanceNowAtSpawn env
       \<and> baseSize (last (animatedShapes (render_legacy env mp af opts st)))
           = sizeBase mp * (1 + amplitude af * sensitivity opts * 2 * 3)
       \<and> baseOpacity (last (animatedShapes (render_legacy env mp af opts st)))
           = min (max (opacityBase mp * globalOpacity opts
                        * (3 / 10 + amplitude af * sensitivity opts * 2 * (15 / 10))) (2 / 10)) 1"
proof -
  obtain st2 where r: "render_legacy env mp af opts st
           = updateAnimatedElements_legacy (performanceNow env)
               (st2\<lparr>animatedShapes := animatedShapes st @
                   [new_shape (8 / 10) env 2 (visualType mp) mp
                      (mathRandom env 0 * canvasWidth st) (mathRandom env 1 * canvasHeight st)
                      (sizeBase mp * (1 + amplitude af * sensitivity opts * 2 * 3))
                      (min (max (opacityBase mp * globalOpacity opts
                                  * (3 / 10 + amplitude af * sensitivity opts * 2 * (15 / 10)))
                                (2 / 10)) 1)]\<rparr>)"
    using render_legacy_spawn [OF assms(1,2)] by blast
  obtain s' call where s: "updateShape_legacy (animationTime st2) (performanceNow env)
        (new_shape (8 / 10) env 2 (visualType mp) mp
                      (mathRandom env 0 * canvasWidth st) (mathRandom env 1 * canvasHeight st)
                      (sizeBase mp * (1 + amplitude af * sensitivity opts * 2 * 3))
                      (min (max (opacityBase mp * globalOpacity opts
                                  * (3 / 10 + amplitude af * sensitivity opts * 2 * (15 / 10)))
                                (2 / 10)) 1)) = Some (s', call)"
    "startTime s' = performanceNowAtSpawn env"
    "baseSize s' = sizeBase mp * (1 + amplitude af * sensitivity opts * 2 * 3)"
    "baseOpacity s' = min (max (opacityBase mp * globalOpacity opts
                        * (3 / 10 + amplitude af * sensitivity opts * 2 * (15 / 10))) (2 / 10)) 1"
    using new_shape_survives_legacy [OF assms(3,4)] by blast
  show ?thesis
    unfolding r
    using last_map_filter_snoc [of "\<lambda>e. map_option fst
              (updateShape_legacy (animationTime st2) (performanceNow env) e)" _ s' "animatedShapes st"]
      s
    by (simp add: updateAnimatedElements_legacy_def updateParticles_legacy_eq
        updateAnimatedShapes_legacy_eq)
qed

lemma spawned_shape_current:
  assumes "visualType mp \<noteq> particle" "2 / 100 \<le> amplitude af * sensitivity opts"
    and "performanceNow env \<le> performanceNowAtSpawn env"
    and "\<not> fadeEnabled opts \<or> - 1500 \<le> fadeDuration opts"
  shows "animatedShapes (render env mp af opts st) \<noteq> []
       \<and> startTime (last (animatedShapes (render env mp af opts st))) = performanceNowAtSpawn env
       \<and> baseSize (last (animatedShapes (render env mp af opts st)))
           = max (sizeBase mp * (1 + amplitude af * sensitivity opts * 3)) 40
       \<and> baseOpacity (last (animatedShapes (render env mp af opts st))) = 8 / 10"
proof -
  obtain st2 where r: "currentOptions st2 = opts" "render env mp af opts st
           = updateAnimatedElements (performanceNow env)
               (st2\<lparr>animatedShapes := animatedShapes st @
                   [new_shape (12 / 10) env 2 (visualType mp) mp
                      (mathRandom env 0 * canvasWidth st) (mathRandom env 1 * canvasHeight st)
                      (max (sizeBase mp * (1 + amplitude af * sensitivity opts * 3)) 40)
                      (8 / 10)]\<rparr>)"
    using render_spawn [OF assms(1,2)] by blast
  obtain s' call where s: "updateShape opts (animationTime st2) (performanceNow env)
        (new_shape (12 / 10) env 2 (visualType mp) mp
                      (mathRandom env 0 * canvasWidth st) (mathRandom env 1 * canvasHeight st)
                      (max (sizeBase mp * (1 + amplitude af * sensitivity opts * 3)) 40)
                      (8 / 10)) = Some (s', call)"
    "startTime s' = performanceNowAtSpawn env"
    "baseSize s' = max (sizeBase mp * (1 + amplitude af * sensitivity opts * 3)) 40"
    "baseOpacity s' = 8 / 10"
    using new_shape_survives [OF assms(3,4)] by blast
  show ?thesis
    unfolding r(2)
    using last_map_filter_snoc [of "\<lambda>e. map_option fst
              (updateShape opts (animationTime st2) (performanceNow env) e)" _ s' "animatedShapes st"]
      s r(1)
    by (simp add: updateAnimatedElements_def updateParticles_eq updateAnimatedShapes_eq)
qed

text \<open>
  C6, as stated, fails in the renderer that has the fade option: for a mapping with size
  base 10 and a scaled amplitude of 0.1 the spawned shape has base size 40, not 13, and its
  base opacity is 0.8 whatever the opacity base of the mapping and the global opacity are.
\<close>

theorem spawn_size_floor_counterexample:
  "baseSize (last (animatedShapes
      (render (sample_env 0) sample_mapping (sample_features (1 / 10)) (sample_options False)
         (sample_renderer (sample_options False) [])))) = 40
   \<and> sizeBase sample_mapping
       * (1 + amplitude (sample_features (1 / 10)) * sensitivity (sample_options False) * 3) = 13
   \<and> baseOpacity (last (animatedShapes
      (render (sample_env 0) sample_mapping (sample_features (1 / 10)) (sample_options False)
         (sample_renderer (sample_options False) [])))) = 8 / 10
   \<and> baseOpacity (last (animatedShapes
      (render (sample_env 0) (sample_mapping\<lparr>opacityBase := 1 / 10\<rparr>) (sample_features (1 / 10))
         ((sample_options False)\<lparr>globalOpacity := 1 / 10\<rparr>)
         (sample_renderer (sample_options False) [])))) = 8 / 10"
proof -
  have a: "visualType sample_mapping \<noteq> particle"
    "visualType (sample_mapping\<lparr>opacityBase := 1 / 10\<rparr>) \<noteq> particle"
    by (simp_all add: sample_defs)
  have b: "2 / 100 \<le> amplitude (sample_features (1 / 10)) * sensitivity (sample_options False)"
    "2 / 100 \<le> amplitude (sample_features (1 / 10))
        * sensitivity ((sample_options False)\<lparr>globalOpacity := 1 / 10\<rparr>)"
    by (simp_all add: sample_defs)
  have c: "performanceNow (sample_env 0) \<le> performanceNowAtSpawn (sample_env 0)"
    by (simp add: sample_defs)
  have d: "\<not> fadeEnabled (sample_options False) \<or> - 1500 \<le> fadeDuration (sample_options False)"
    "\<not> fadeEnabled ((sample_options False)\<lparr>globalOpacity := 1 / 10\<rparr>)
       \<or> - 1500 \<le> fadeDuration ((sample_options False)\<lparr>globalOpacity := 1 / 10\<rparr>)"
    by (simp_all add: sample_defs)
  note r1 = spawned_shape_current [OF a(1) b(1) c d(1),
      of "sample_renderer (sample_options False) []"]
  note r2 = spawned_shape_current [OF a(2) b(2) c d(2),
      of "sample_renderer (sample_options False) []"]
  have e: "max (sizeBase sample_mapping
       * (1 + amplitude (sample_features (1 / 10)) * sensitivity (sample_options False) * 3)) 40 = 40"
    "sizeBase sample_mapping
       * (1 + amplitude (sample_features (1 / 10)) * sensitivity (sample_options False) * 3) = 13"
    by (simp_all add: sample_defs)
  from r1 r2 e show ?thesis by simp
qed

text \<open>
  C6, amended. In the renderer of \<open>src/lib/visualRenderer.ts\<close>, on every tick that spawns
  a shape (family geometric, brush or organic; scaled amplitude, which is amplitude times
  sensitivity times 2, at least 0.01), the base size of the spawned shape is the size base
  of the mapping times (1 + 3 times the scaled amplitude), and its base opacity is the
  opacity base times the global opacity times (0.3 + 1.5 times the scaled amplitude),
  clamped to \<open>[0.2, 1]\<close>. In the renderer with the fade option (scaled amplitude: amplitude
  times sensitivity, at least 0.02) the base size is that product or 40, whichever is
  larger, and the base opacity is 0.8. The spawned shape is the last of the live list after
  the tick; the clock does not run backwards between the two readings of a tick.
\<close>

theorem spawned_shape_size_and_opacity:
  assumes "visualType mp \<noteq> particle"
    and "performanceNow env \<le> performanceNowAtSpawn env"
    and "0 \<le> mathRandom env 2"
  shows "(1 / 100 \<le> amplitude af * sensitivity opts * 2 \<longrightarrow>
            animatedShapes (render_legacy env mp af opts st) \<noteq> []
          \<and> startTime (last (animatedShapes (render_legacy env mp af opts st)))
              = performanceNowAtSpawn env
          \<and> baseSize (last (animatedShapes (render_legacy env mp af opts st)))
              = sizeBase mp * (1 + amplitude af * sensitivity opts * 2 * 3)
          \<and> baseOpacity (last (animatedShapes (render_legacy env mp af opts st)))
              = min (max (opacityBase mp * globalOpacity opts
                           * (3 / 10 + amplitude af * sensitivity opts * 2 * (15 / 10))) (2 / 10)) 1
          \<and> 2 / 10 \<le> baseOpacity (last (animatedShapes (render_legacy env mp af opts st)))
          \<and> baseOpacity (last (animatedShapes (render_legacy env mp af opts st))) \<le> 1)
       \<and> (2 / 100 \<le> amplitude af * sensitivity opts
            \<and> (\<not> fadeEnabled opts \<or> - 1500 \<le> fadeDuration opts) \<longrightarrow>
            animatedShapes (render env mp af opts st) \<noteq> []
          \<and> startTime (last (animatedShapes (render env mp af opts st))) = performanceNowAtSpawn env
          \<and> baseSize (last (animatedShapes (render env mp af opts st)))
              = max (sizeBase mp * (1 + amplitude af * sensitivity opts * 3)) 40
          \<and> baseOpacity (last (animatedShapes (render env mp af opts st))) = 8 / 10)"
proof -
  have legacy: "animatedShapes (render_legacy env mp af opts st) \<noteq> []
          \<and> startTime (last (animatedShapes (render_legacy env mp af opts st)))
              = performanceNowAtSpawn env
          \<and> baseSize (last (animatedShapes (render_legacy env mp af opts st)))
              = sizeBase mp * (1 + amplitude af * sensitivity opts * 2 * 3)
          \<and> baseOpacity (last (animatedShapes (render_legacy env mp af opts st)))
              = min (max (opacityBase mp * globalOpacity opts
                           * (3 / 10 + amplitude af * sensitivity opts * 2 * (15 / 10))) (2 / 10)) 1
          \<and> 2 / 10 \<le> baseOpacity (last (animatedShapes (render_legacy env mp af opts st)))
          \<and> baseOpacity (last (animatedShapes (render_legacy env mp af opts st))) \<le> 1"
    if "1 / 100 \<le> amplitude af * sensitivity opts * 2"
    using spawned_shape_legacy [OF assms(1) that assms(2,3), of st] by simp
  have current: "animatedShapes (render env mp af opts st) \<noteq> []
          \<and> startTime (last (animatedShapes (render env mp af opts st))) = performanceNowAtSpawn env
          \<and> baseSize (last (animatedShapes (render env mp af opts st)))
              = max (sizeBase mp * (1 + amplitude af * sensitivity opts * 3)) 40
          \<and> baseOpacity (last (animatedShapes (render env mp af opts st))) = 8 / 10"
    if "2 / 100 \<le> amplitude af * sensitivity opts"
      "\<not> fadeEnabled opts \<or> - 1500 \<le> fadeDuration opts"
    using spawned_shape_current [OF assms(1) that(1) assms(2) that(2), of st] by simp
  from legacy current show ?thesis by blast
qed

theorem spawned_shape_size_and_opacity_witness:
  "visualType sample_mapping \<noteq> particle
   \<and> performanceNow (sample_env 0) \<le> performanceNowAtSpawn (sample_env 0)
   \<and> 0 \<le> mathRandom (sample_env 0) 2
   \<and> 1 / 100 \<le> amplitude (sample_features (1 / 10)) * sensitivity (sample_options False) * 2
   \<and> 2 / 100 \<le> amplitude (sample_features (1 / 10)) * sensitivity (sample_options False)
   \<and> \<not> fadeEnabled (sample_options False)
   \<and> baseSize (last (animatedShapes
        (render_legacy (sample_env 0) sample_mapping (sample_features (1 / 10)) (sample_options False)
           (sample_renderer (sample_options False) [])))) = 16
   \<and> baseOpacity (last (animatedShapes
        (render_legacy (sample_env 0) sample_mapping (sample_features (1 / 10)) (sample_options False)
           (sample_renderer (sample_options False) [])))) = 21 / 100
   \<and> baseSize (last (animatedShapes
        (render (sample_env 0) sample_mapping (sample_features (1 / 10)) (sample_options False)
           (sample_renderer (sample_options False) [])))) = 40"
proof -
  have h: "visualType sample_mapping \<noteq> particle"
    "performanceNow (sample_env 0) \<le> performanceNowAtSpawn (sample_env 0)"
    "0 \<le> mathRandom (sample_env 0) 2"
    by (simp_all add: sample_defs)
  have a: "1 / 100 \<le> amplitude (sample_features (1 / 10)) * sensitivity (sample_options False) * 2"
    "2 / 100 \<le> amplitude (sample_features (1 / 10)) * sensitivity (sample_options False)"
    "\<not> fadeEnabled (sample_options False)"
    by (simp_all add: sample_defs)
  note t = spawned_shape_size_and_opacity [OF h, of "sample_features (1 / 10)" "sample_options False"
      "sample_renderer (sample_options False) []"]
  have v: "sizeBase sample_mapping
       * (1 + amplitude (sample_features (1 / 10)) * sensitivity (sample_options False) * 2 * 3) = 16"
    "min (max (opacityBase sample_mapping * globalOpacity (sample_options False)
                 * (3 / 10 + amplitude (sample_features (1 / 10)) * sensitivity (sample_options False)
                      * 2 * (15 / 10))) (2 / 10)) 1 = 21 / 100"
    "max (sizeBase sample_mapping
       * (1 + amplitude (sample_features (1 / 10)) * sensitivity (sample_options False) * 3)) 40 = 40"
    by (simp_all add: sample_defs)
  from t a(1) have l1: "baseSize (last (animatedShapes
        (render_legacy (sample_env 0) sample_mapping (sample_features (1 / 10)) (sample_options False)
           (sample_renderer (sample_options False) []))))
      = sizeBase sample_mapping
       * (1 + amplitude (sample_features (1 / 10)) * sensitivity (sample_options False) * 2 * 3)"
    by blast
  from t a(1) have l2: "baseOpacity (last (animatedShapes
        (render_legacy (sample_env 0) sample_mapping (sample_features (1 / 10)) (sample_options False)
           (sample_renderer (sample_options False) []))))
      = min (max (opacityBase sample_mapping * globalOpacity (sample_options False)
                 * (3 / 10 + amplitude (sample_features (1 / 10)) * sensitivity (sample_options False)
                      * 2 * (15 / 10))) (2 / 10)) 1"
    by blast
  from t a(2,3) have l3: "baseSize (last (animatedShapes
        (render (sample_env 0) sample_mapping (sample_features (1 / 10)) (sample_options False)
           (sample_renderer (sample_options False) []))))
      = max (sizeBase sample_mapping
       * (1 + amplitude (sample_features (1 / 10)) * sensitivity (sample_options False) * 3)) 40"
    by blast
  have r: "baseSize (last (animatedShapes
        (render_legacy (sample_env 0) sample_mapping (sample_features (1 / 10)) (sample_options False)
           (sample_renderer (sample_options False) [])))) = 16"
    "baseOpacity (last (animatedShapes
        (render_legacy (sample_env 0) sample_mapping (sample_features (1 / 10)) (sample_options False)
           (sample_renderer (sample_options False) [])))) = 21 / 100"
    "baseSize (last (animatedShapes
        (render (sample_env 0) sample_mapping (sample_features (1 / 10)) (sample_options False)
           (sample_renderer (sample_options False) [])))) = 40"
    by (simp_all only: l1 l2 l3 v)
  from h a r show ?thesis by (intro conjI) blast+
qed

section \<open>Verified properties: export\<close>

text \<open>
  C9. The conversion maps the pure red pixel (255, 0, 0) to k = 0, c = 0, m = 1, y = 1, and
  the reconstruction writes back exactly (255, 0, 0); the alpha byte is left as it was.
\<close>

theorem cmyk_pure_red_roundtrip:
  "rgb_to_cmyk 255 0 0 = (0, 1, 1, 0)
   \<and> cmyk_to_rgb (rgb_to_cmyk 255 0 0) = (255, 0, 0)
   \<and> convertToCMYK [(255, 0, 0, ab)] = [(255, 0, 0, ab)]"
  by (simp add: rgb_to_cmyk_def cmyk_to_rgb_def store_clamped_def Math_round_def Let_def)

end
